theory Spec2Isabelle
  imports Main
begin

section \<open>The LXD environment of provider/lxd/environ.go\<close>

text \<open>
  The file coordinates calls to collaborators that live elsewhere: the LXD client
  (\<open>rawProvider\<close>), the generic bootstrap/destroy strategy (\<open>baseProvider\<close>), the
  configuration validator, the namespace generator and the firewaller. The embedding
  keeps every function of environ.go as a HOL function and takes each collaborator as a
  function over an arbitrary world \<open>'w\<close> (the hypervisor and everything else outside
  the process). Every call that leaves environ.go is recorded in a trace, so that
  the calls made, and their order, can be stated.
\<close>

subsection \<open>Errors (github.com/juju/errors)\<close>

datatype kind = Generic | NotFound | AlreadyExists

text \<open>
  \<open>Err k msg\<close> is an error created where the failure happened; \<open>Trace\<close>,
  \<open>Annotate\<close> and \<open>Annotatef\<close> wrap an error and keep its cause. \<open>Annotatef\<close> keeps
  the format string and its arguments as the call gives them: the text that the verbs
  of the format produce is not computed. A Go \<open>error\<close> value is an \<open>error option\<close>,
  \<open>None\<close> being \<open>nil\<close>.
\<close>

datatype error =
    Err kind string
  | Trace error
  | Annotate error string
  | Annotatef error string "string list"

fun Cause :: "error \<Rightarrow> error" where
  "Cause (Err k m) = Err k m"
| "Cause (Trace e) = Cause e"
| "Cause (Annotate e m) = Cause e"
| "Cause (Annotatef e f args) = Cause e"

fun kind_of :: "error \<Rightarrow> kind" where
  "kind_of (Err k m) = k"
| "kind_of (Trace e) = kind_of e"
| "kind_of (Annotate e m) = kind_of e"
| "kind_of (Annotatef e f args) = kind_of e"

definition errors_New :: "string \<Rightarrow> error" where
  "errors_New m = Err Generic m"

fun IsNotFound :: "error option \<Rightarrow> bool" where
  "IsNotFound None = False"
| "IsNotFound (Some e) = (kind_of (Cause e) = NotFound)"

subsection \<open>Data\<close>

text \<open>Modelled from the spec: \<open>config.Config\<close> (environs/config) is not in the source
  file; the environment reads its display name and its UUID from it.\<close>

record config =
  Name :: string
  UUID :: string
  attributes :: "(string \<times> string) list"

text \<open>\<open>environConfig\<close> embeds the validated \<open>*config.Config\<close>.\<close>

record environConfig =
  Config :: config
  attrs :: "(string \<times> string) list"

text \<open>Modelled from the spec: \<open>lxdclient.Cert\<close>, a named client certificate.\<close>

record cert =
  Cert_Name :: string
  CertPEM :: string
  KeyPEM :: string

text \<open>Modelled from the spec: \<open>environs.CloudSpec\<close>, the descriptor of the hypervisor
  endpoint and its credentials.\<close>

record cloudSpec =
  Endpoint :: string
  Credential :: "(string \<times> string) list option"

datatype namespace = Namespace string

datatype environProvider = EnvironProvider

datatype bootstrapContext = BootstrapContext string
datatype bootstrapParams = BootstrapParams string
datatype bootstrapResult = BootstrapResult string

text \<open>Modelled from the spec: an ingress rule (protocol, first port, last port); the
  source only passes rules on and takes the length of the list.\<close>

datatype ingressRule = IngressRule string nat nat

text \<open>An instance handle: \<open>inst.Id()\<close> and \<open>inst.raw.Metadata()\<close>.\<close>

record environInstance =
  Id :: string
  Metadata :: "string \<rightharpoonup> string"

text \<open>Indexing a Go \<open>map[string]string\<close>: a missing key reads as the empty string.\<close>

definition index :: "(string \<rightharpoonup> string) \<Rightarrow> string \<Rightarrow> string" where
  "index m k = (case m k of None \<Rightarrow> [] | Some v \<Rightarrow> v)"

text \<open>Modelled from the spec: the tag keys of environs/tags (the comment in
  \<open>destroyHostedModelResources\<close> names the second one).\<close>

definition JujuModel :: string where
  "JujuModel = ''juju-model-uuid''"

definition JujuController :: string where
  "JujuController = ''juju-controller-uuid''"

subsection \<open>Calls that leave the file\<close>

datatype event =
    EvNewRawProvider cloudSpec bool
  | EvHasProfile string
  | EvCreateProfile string "string \<rightharpoonup> string"
  | EvCertByFingerprint string
  | EvAddCert cert
  | EvRemoveCertByFingerprint string
  | EvPrefixedInstances string
  | EvRemoveInstances string "string list"
  | EvIngressRules
  | EvClosePorts "ingressRule list"
  | EvBootstrapEnv bootstrapContext bootstrapParams
  | EvDestroyEnv

record 'w state =
  world :: 'w
  trace :: "event list"

text \<open>A remote call: run the collaborator on the world and append the call to the trace.\<close>

definition call :: "event \<Rightarrow> ('w \<Rightarrow> 'a \<times> 'w) \<Rightarrow> 'w state \<Rightarrow> 'a \<times> 'w state" where
  "call ev f s = (case f (world s) of (r, w') \<Rightarrow> (r, \<lparr>world = w', trace = trace s @ [ev]\<rparr>))"

text \<open>\<open>rawProvider\<close>: the field \<open>remote.Cert\<close> and the methods of the LXD client that
  environ.go calls.\<close>

record 'w rawProvider =
  remote_Cert :: "cert option"
  HasProfile :: "string \<Rightarrow> 'w \<Rightarrow> (error + bool) \<times> 'w"
  CreateProfile :: "string \<Rightarrow> (string \<rightharpoonup> string) \<Rightarrow> 'w \<Rightarrow> error option \<times> 'w"
  CertByFingerprint :: "string \<Rightarrow> 'w \<Rightarrow> (error + cert) \<times> 'w"
  AddCert :: "cert \<Rightarrow> 'w \<Rightarrow> error option \<times> 'w"
  RemoveCertByFingerprint :: "string \<Rightarrow> 'w \<Rightarrow> error option \<times> 'w"
  RemoveInstances :: "string \<Rightarrow> string list \<Rightarrow> 'w \<Rightarrow> error option \<times> 'w"

text \<open>The interface \<open>baseProvider\<close>.\<close>

record 'w baseProvider =
  BootstrapEnv :: "bootstrapContext \<Rightarrow> bootstrapParams \<Rightarrow> 'w
                     \<Rightarrow> (bootstrapResult option \<times> error option) \<times> 'w"
  DestroyEnv :: "'w \<Rightarrow> error option \<times> 'w"

text \<open>The struct \<open>environ\<close>. The mutex is left out: the model is sequential. The fields
  other than \<open>base\<close> come first, since \<open>common.DefaultProvider{Env: env}\<close> is built
  from them.\<close>

record 'w environ_fields =
  cloud :: cloudSpec
  provider :: "environProvider option"
  local :: bool
  name :: string
  uuid :: string
  raw :: "'w rawProvider"
  namespace :: namespace
  ecfg :: environConfig

record 'w environ = "'w environ_fields" +
  base :: "'w baseProvider"

text \<open>The functions of the repository that environ.go calls and that are defined in
  other files: taken as parameters.\<close>

record 'w pkg =
  newValidConfig :: "config \<Rightarrow> error + environConfig"
  NewNamespace :: "string \<Rightarrow> error + namespace"
  getCerts :: "cloudSpec \<Rightarrow> (cert \<times> string) option"
  Fingerprint :: "cert \<Rightarrow> error + string"
  DefaultProvider :: "'w environ_fields \<Rightarrow> 'w baseProvider"
  prefixedInstances :: "'w environ \<Rightarrow> string \<Rightarrow> 'w \<Rightarrow> (error + environInstance list) \<times> 'w"
  IngressRules :: "'w environ \<Rightarrow> 'w \<Rightarrow> (error + ingressRule list) \<times> 'w"
  ClosePorts :: "'w environ \<Rightarrow> ingressRule list \<Rightarrow> 'w \<Rightarrow> error option \<times> 'w"

subsection \<open>Construction\<close>

definition defaultProfileConfig :: "string \<rightharpoonup> string" where
  "defaultProfileConfig = [''boot.autostart'' \<mapsto> ''true'', ''security.nesting'' \<mapsto> ''true'']"

definition profileName :: "'w environ \<Rightarrow> string" where
  "profileName env = ''juju-'' @ Name (Config (ecfg env))"

definition initProfile :: "'w environ \<Rightarrow> 'w state \<Rightarrow> error option \<times> 'w state" where
  "initProfile env s =
     (case call (EvHasProfile (profileName env)) (HasProfile (raw env) (profileName env)) s of
        (Inl err, s1) \<Rightarrow> (Some (Trace err), s1)
      | (Inr hasProfile, s1) \<Rightarrow>
          if hasProfile then (None, s1)
          else call (EvCreateProfile (profileName env) defaultProfileConfig)
                 (CreateProfile (raw env) (profileName env) defaultProfileConfig) s1)"

text \<open>\<open>newEnviron\<close> returns the Go pair \<open>(*environ, error)\<close>. The struct literal of the
  source does not set \<open>provider\<close>, which stays nil.\<close>

definition newEnviron ::
  "'w pkg \<Rightarrow> environProvider option \<Rightarrow> bool \<Rightarrow> cloudSpec \<Rightarrow> config
     \<Rightarrow> (cloudSpec \<Rightarrow> bool \<Rightarrow> 'w \<Rightarrow> (error + 'w rawProvider) \<times> 'w)
     \<Rightarrow> 'w state \<Rightarrow> ('w environ option \<times> error option) \<times> 'w state" where
  "newEnviron p prov loc spec cfg newRawProvider s =
     (case newValidConfig p cfg of
        Inl err \<Rightarrow> ((None, Some (Annotate err ''invalid config'')), s)
      | Inr ec \<Rightarrow>
     (case NewNamespace p (UUID cfg) of
        Inl err \<Rightarrow> ((None, Some (Trace err)), s)
      | Inr ns \<Rightarrow>
     (case call (EvNewRawProvider spec loc) (newRawProvider spec loc) s of
        (Inl err, s1) \<Rightarrow> ((None, Some (Trace err)), s1)
      | (Inr r, s1) \<Rightarrow>
          let flds = \<lparr>cloud = spec, provider = None, local = loc,
                      name = Name (Config ec), uuid = UUID (Config ec), raw = r,
                      namespace = ns, ecfg = ec\<rparr>;
              env = \<lparr>cloud = spec, provider = None, local = loc,
                     name = Name (Config ec), uuid = UUID (Config ec), raw = r,
                     namespace = ns, ecfg = ec, base = DefaultProvider p flds\<rparr>
          in (case initProfile env s1 of
                (Some err, s2) \<Rightarrow> ((None, Some (Trace err)), s2)
              | (None, s2) \<Rightarrow> ((Some env, None), s2)))))"

subsection \<open>Configuration\<close>

text \<open>\<open>SetConfig\<close> mutates the receiver: the model returns the environment after the
  call.\<close>

definition SetConfig :: "'w pkg \<Rightarrow> 'w environ \<Rightarrow> config \<Rightarrow> error option \<times> 'w environ" where
  "SetConfig p env cfg =
     (case newValidConfig p cfg of
        Inl err \<Rightarrow> (Some (Trace err), env)
      | Inr ec \<Rightarrow> (None, env\<lparr>ecfg := ec\<rparr>))"

text \<open>The method \<open>Config\<close> (the name \<open>Config\<close> is taken by the embedded field).\<close>

definition Config_of :: "'w environ \<Rightarrow> config" where
  "Config_of env = Config (ecfg env)"

subsection \<open>Bootstrap\<close>

text \<open>The block \<open>if env.local { ... }\<close> of \<open>Bootstrap\<close> (lines 161 to 185): \<open>Some err\<close> is
  one of its early returns \<open>return nil, err\<close>, \<open>None\<close> is falling through to the
  last line of \<open>Bootstrap\<close>.\<close>

definition Bootstrap_trust :: "'w pkg \<Rightarrow> 'w environ \<Rightarrow> 'w state \<Rightarrow> error option \<times> 'w state" where
  "Bootstrap_trust p env s =
     (if local env then
        (case getCerts p (cloud env) of
           None \<Rightarrow> (Some (errors_New ''cannot bootstrap without client certificate''), s)
         | Some (clientCert, serverCert) \<Rightarrow>
        (case Fingerprint p clientCert of
           Inl err \<Rightarrow> (Some (Trace err), s)
         | Inr fingerprint \<Rightarrow>
        (case call (EvCertByFingerprint fingerprint)
                (CertByFingerprint (raw env) fingerprint) s of
           (res, s1) \<Rightarrow>
             let err = (case res of Inl e \<Rightarrow> Some e | Inr c \<Rightarrow> None) in
             if IsNotFound err then
               (case call (EvAddCert clientCert) (AddCert (raw env) clientCert) s1 of
                  (Some err', s2) \<Rightarrow>
                    (Some (Annotatef err' ''adding certificate %q'' [Cert_Name clientCert]), s2)
                | (None, s2) \<Rightarrow> (None, s2))
             else (case err of
                     Some e \<Rightarrow> (Some (Annotate e ''querying certificates''), s1)
                   | None \<Rightarrow> (None, s1)))))
      else (None, s))"

definition Bootstrap ::
  "'w pkg \<Rightarrow> 'w environ \<Rightarrow> bootstrapContext \<Rightarrow> bootstrapParams \<Rightarrow> 'w state
     \<Rightarrow> (bootstrapResult option \<times> error option) \<times> 'w state" where
  "Bootstrap p env ctx params s =
     (case Bootstrap_trust p env s of
        (Some err, s1) \<Rightarrow> ((None, Some err), s1)
      | (None, s1) \<Rightarrow> call (EvBootstrapEnv ctx params) (BootstrapEnv (base env) ctx params) s1)"

subsection \<open>Destroy\<close>

definition Destroy :: "'w pkg \<Rightarrow> 'w environ \<Rightarrow> 'w state \<Rightarrow> error option \<times> 'w state" where
  "Destroy p env s =
     (case call EvIngressRules (IngressRules p env) s of
        (Inl err, s1) \<Rightarrow> (Some (Trace err), s1)
      | (Inr rules, s1) \<Rightarrow>
     (case (if length rules > 0 then call (EvClosePorts rules) (ClosePorts p env rules) s1
            else (None, s1)) of
        (Some err, s2) \<Rightarrow> (Some (Trace err), s2)
      | (None, s2) \<Rightarrow>
     (case call EvDestroyEnv (DestroyEnv (base env)) s2 of
        (Some err, s3) \<Rightarrow> (Some (Trace err), s3)
      | (None, s3) \<Rightarrow> (None, s3))))"

text \<open>The loop of \<open>destroyHostedModelResources\<close> over the instances, \<open>names\<close> being the
  slice it appends to.\<close>

fun hosted_names :: "string \<Rightarrow> string \<Rightarrow> environInstance list \<Rightarrow> string list \<Rightarrow> string list" where
  "hosted_names envUUID controllerUUID [] names = names"
| "hosted_names envUUID controllerUUID (inst # rest) names =
     (let metadata = Metadata inst in
      if index metadata JujuModel = envUUID then
        hosted_names envUUID controllerUUID rest names
      else if index metadata JujuController \<noteq> controllerUUID then
        hosted_names envUUID controllerUUID rest names
      else hosted_names envUUID controllerUUID rest (names @ [Id inst]))"

definition prefix :: string where
  "prefix = ''juju-''"

definition destroyHostedModelResources ::
  "'w pkg \<Rightarrow> 'w environ \<Rightarrow> string \<Rightarrow> 'w state \<Rightarrow> error option \<times> 'w state" where
  "destroyHostedModelResources p env controllerUUID s =
     (case call (EvPrefixedInstances prefix) (prefixedInstances p env prefix) s of
        (Inl err, s1) \<Rightarrow> (Some (Annotate err ''listing instances''), s1)
      | (Inr instances, s1) \<Rightarrow>
          let names = hosted_names (uuid env) controllerUUID instances [] in
          if length names > 0 then
            (case call (EvRemoveInstances prefix names)
                    (RemoveInstances (raw env) prefix names) s1 of
               (Some err, s2) \<Rightarrow> (Some (Annotate err ''removing hosted model instances''), s2)
             | (None, s2) \<Rightarrow> (None, s2))
          else (None, s1))"

definition removeCertificate :: "'w pkg \<Rightarrow> 'w environ \<Rightarrow> 'w state \<Rightarrow> error option \<times> 'w state" where
  "removeCertificate p env s =
     (case remote_Cert (raw env) of
        None \<Rightarrow> (None, s)
      | Some c \<Rightarrow>
     (case Fingerprint p c of
        Inl err \<Rightarrow> (Some (Annotate err ''generating certificate fingerprint''), s)
      | Inr fingerprint \<Rightarrow>
     (case call (EvRemoveCertByFingerprint fingerprint)
             (RemoveCertByFingerprint (raw env) fingerprint) s of
        (Some err, s1) \<Rightarrow>
          if \<not> IsNotFound (Some err) then (Some (Annotate err ''removing certificate''), s1)
          else (None, s1)
      | (None, s1) \<Rightarrow> (None, s1))))"

definition DestroyController ::
  "'w pkg \<Rightarrow> 'w environ \<Rightarrow> string \<Rightarrow> 'w state \<Rightarrow> error option \<times> 'w state" where
  "DestroyController p env controllerUUID s =
     (case Destroy p env s of
        (Some err, s1) \<Rightarrow> (Some (Trace err), s1)
      | (None, s1) \<Rightarrow>
     (case destroyHostedModelResources p env controllerUUID s1 of
        (Some err, s2) \<Rightarrow> (Some (Trace err), s2)
      | (None, s2) \<Rightarrow>
          if local env then
            (case removeCertificate p env s2 of
               (Some err, s3) \<Rightarrow> (Some (Trace err), s3)
             | (None, s3) \<Rightarrow> (None, s3))
          else (None, s2)))"

subsection \<open>Reading a trace\<close>

text \<open>The calls to the trust store.\<close>

fun is_cert_event :: "event \<Rightarrow> bool" where
  "is_cert_event (EvCertByFingerprint fp) = True"
| "is_cert_event (EvAddCert c) = True"
| "is_cert_event (EvRemoveCertByFingerprint fp) = True"
| "is_cert_event ev = False"

fun is_BootstrapEnv :: "event \<Rightarrow> bool" where
  "is_BootstrapEnv (EvBootstrapEnv ctx params) = True"
| "is_BootstrapEnv ev = False"


text \<open>The step of \<open>DestroyController\<close> a call belongs to: 1 for the calls of \<open>Destroy\<close>,
  2 for the sweep of hosted-model instances, 3 for the removal of the certificate, and 0
  for the calls that no step of \<open>DestroyController\<close> makes.\<close>

fun stage :: "event \<Rightarrow> nat" where
  "stage EvIngressRules = 1"
| "stage (EvClosePorts rules) = 1"
| "stage EvDestroyEnv = 1"
| "stage (EvPrefixedInstances pre) = 2"
| "stage (EvRemoveInstances pre ids) = 2"
| "stage (EvRemoveCertByFingerprint fp) = 3"
| "stage ev = 0"

text \<open>The instances that the sweep of controller \<open>controllerUUID\<close> picks, in the words
  of the claim: the controller tag is the target's and the model tag is not the
  environment's own.\<close>

definition hosted :: "string \<Rightarrow> string \<Rightarrow> environInstance \<Rightarrow> bool" where
  "hosted envUUID controllerUUID inst \<longleftrightarrow>
     index (Metadata inst) JujuController = controllerUUID
     \<and> index (Metadata inst) JujuModel \<noteq> envUUID"

section \<open>A reference hypervisor\<close>

text \<open>
  Modelled from the spec: the LXD client, the firewaller, the generic strategy, the
  configuration validator and the credential helpers are not in environ.go. This
  hypervisor follows the interface the spec gives for them: a trust store keyed by
  fingerprint, named profiles, instances with metadata, open ingress rules. Each
  operation first consults \<open>hv_faults\<close>, the failures the hypervisor is set up to
  report (the outcome "error" of every operation of the interface); without a fault it
  behaves as the interface says.
\<close>

record hypervisor =
  hv_certs :: "(string \<times> cert) list"
  hv_profiles :: "(string \<times> (string \<rightharpoonup> string)) list"
  hv_instances :: "environInstance list"
  hv_rules :: "ingressRule list"
  hv_faults :: "event \<Rightarrow> error option"

definition hv_HasProfile :: "string \<Rightarrow> hypervisor \<Rightarrow> (error + bool) \<times> hypervisor" where
  "hv_HasProfile n h =
     (case hv_faults h (EvHasProfile n) of
        Some e \<Rightarrow> (Inl e, h)
      | None \<Rightarrow> (Inr (n \<in> set (map fst (hv_profiles h))), h))"

definition hv_CreateProfile ::
  "string \<Rightarrow> (string \<rightharpoonup> string) \<Rightarrow> hypervisor \<Rightarrow> error option \<times> hypervisor" where
  "hv_CreateProfile n c h =
     (case hv_faults h (EvCreateProfile n c) of
        Some e \<Rightarrow> (Some e, h)
      | None \<Rightarrow> (None, h\<lparr>hv_profiles := hv_profiles h @ [(n, c)]\<rparr>))"

definition hv_CertByFingerprint :: "string \<Rightarrow> hypervisor \<Rightarrow> (error + cert) \<times> hypervisor" where
  "hv_CertByFingerprint fp h =
     (case hv_faults h (EvCertByFingerprint fp) of
        Some e \<Rightarrow> (Inl e, h)
      | None \<Rightarrow>
          (case map_of (hv_certs h) fp of
             None \<Rightarrow> (Inl (Err NotFound ''certificate not found''), h)
           | Some c \<Rightarrow> (Inr c, h)))"

definition hv_AddCert ::
  "(cert \<Rightarrow> error + string) \<Rightarrow> cert \<Rightarrow> hypervisor \<Rightarrow> error option \<times> hypervisor" where
  "hv_AddCert fpr c h =
     (case hv_faults h (EvAddCert c) of
        Some e \<Rightarrow> (Some e, h)
      | None \<Rightarrow>
          (case fpr c of
             Inl e \<Rightarrow> (Some e, h)
           | Inr fp \<Rightarrow>
               if fp \<in> set (map fst (hv_certs h))
               then (Some (Err AlreadyExists ''certificate already in trust store''), h)
               else (None, h\<lparr>hv_certs := hv_certs h @ [(fp, c)]\<rparr>)))"

definition hv_RemoveCertByFingerprint :: "string \<Rightarrow> hypervisor \<Rightarrow> error option \<times> hypervisor" where
  "hv_RemoveCertByFingerprint fp h =
     (case hv_faults h (EvRemoveCertByFingerprint fp) of
        Some e \<Rightarrow> (Some e, h)
      | None \<Rightarrow>
          if fp \<in> set (map fst (hv_certs h))
          then (None, h\<lparr>hv_certs := filter (\<lambda>q. fst q \<noteq> fp) (hv_certs h)\<rparr>)
          else (Some (Err NotFound ''certificate not found''), h))"

definition hv_RemoveInstances ::
  "string \<Rightarrow> string list \<Rightarrow> hypervisor \<Rightarrow> error option \<times> hypervisor" where
  "hv_RemoveInstances pre ids h =
     (case hv_faults h (EvRemoveInstances pre ids) of
        Some e \<Rightarrow> (Some e, h)
      | None \<Rightarrow>
          (None, h\<lparr>hv_instances :=
                     filter (\<lambda>i. \<not> (take (length pre) (Id i) = pre \<and> Id i \<in> set ids))
                       (hv_instances h)\<rparr>))"

definition hv_prefixedInstances ::
  "string \<Rightarrow> hypervisor \<Rightarrow> (error + environInstance list) \<times> hypervisor" where
  "hv_prefixedInstances pre h =
     (case hv_faults h (EvPrefixedInstances pre) of
        Some e \<Rightarrow> (Inl e, h)
      | None \<Rightarrow> (Inr (filter (\<lambda>i. take (length pre) (Id i) = pre) (hv_instances h)), h))"

definition hv_IngressRules :: "hypervisor \<Rightarrow> (error + ingressRule list) \<times> hypervisor" where
  "hv_IngressRules h =
     (case hv_faults h EvIngressRules of
        Some e \<Rightarrow> (Inl e, h)
      | None \<Rightarrow> (Inr (hv_rules h), h))"

definition hv_ClosePorts :: "ingressRule list \<Rightarrow> hypervisor \<Rightarrow> error option \<times> hypervisor" where
  "hv_ClosePorts rules h =
     (case hv_faults h (EvClosePorts rules) of
        Some e \<Rightarrow> (Some e, h)
      | None \<Rightarrow> (None, h\<lparr>hv_rules := filter (\<lambda>r. r \<notin> set rules) (hv_rules h)\<rparr>))"

definition hv_BootstrapEnv ::
  "bootstrapContext \<Rightarrow> bootstrapParams \<Rightarrow> hypervisor
     \<Rightarrow> (bootstrapResult option \<times> error option) \<times> hypervisor" where
  "hv_BootstrapEnv ctx params h =
     (case hv_faults h (EvBootstrapEnv ctx params) of
        Some e \<Rightarrow> ((None, Some e), h)
      | None \<Rightarrow> ((Some (BootstrapResult ''bootstrapped''), None), h))"

definition hv_DestroyEnv :: "hypervisor \<Rightarrow> error option \<times> hypervisor" where
  "hv_DestroyEnv h =
     (case hv_faults h EvDestroyEnv of
        Some e \<Rightarrow> (Some e, h)
      | None \<Rightarrow> (None, h))"

definition hv_raw :: "(cert \<Rightarrow> error + string) \<Rightarrow> cert option \<Rightarrow> hypervisor rawProvider" where
  "hv_raw fpr rc =
     \<lparr>remote_Cert = rc, HasProfile = hv_HasProfile, CreateProfile = hv_CreateProfile,
      CertByFingerprint = hv_CertByFingerprint, AddCert = hv_AddCert fpr,
      RemoveCertByFingerprint = hv_RemoveCertByFingerprint,
      RemoveInstances = hv_RemoveInstances\<rparr>"

definition hv_base :: "hypervisor baseProvider" where
  "hv_base = \<lparr>BootstrapEnv = hv_BootstrapEnv, DestroyEnv = hv_DestroyEnv\<rparr>"

text \<open>Modelled from the spec: validation rejects a configuration without a name; a
  namespace needs a UUID; the client certificate is read from the credential; the
  fingerprint is a function of the certificate bytes.\<close>

definition hv_newValidConfig :: "config \<Rightarrow> error + environConfig" where
  "hv_newValidConfig cfg =
     (if Name cfg = [] then Inl (Err Generic ''empty name'')
      else Inr \<lparr>Config = cfg, attrs = attributes cfg\<rparr>)"

definition hv_NewNamespace :: "string \<Rightarrow> error + namespace" where
  "hv_NewNamespace u = (if u = [] then Inl (Err Generic ''invalid model UUID'') else Inr (Namespace u))"

definition hv_getCerts :: "cloudSpec \<Rightarrow> (cert \<times> string) option" where
  "hv_getCerts spec =
     (case Credential spec of
        None \<Rightarrow> None
      | Some as \<Rightarrow>
          (case (map_of as ''client-cert'', map_of as ''client-key'', map_of as ''server-cert'') of
             (Some c, Some k, Some sc) \<Rightarrow> Some (\<lparr>Cert_Name = ''juju'', CertPEM = c, KeyPEM = k\<rparr>, sc)
           | _ \<Rightarrow> None))"

definition hv_Fingerprint :: "cert \<Rightarrow> error + string" where
  "hv_Fingerprint c =
     (if CertPEM c = [] then Inl (Err Generic ''no certificate data'')
      else Inr (''sha256:'' @ CertPEM c))"

definition hv_pkg :: "hypervisor pkg" where
  "hv_pkg =
     \<lparr>newValidConfig = hv_newValidConfig, NewNamespace = hv_NewNamespace,
      getCerts = hv_getCerts, Fingerprint = hv_Fingerprint,
      DefaultProvider = (\<lambda>flds. hv_base),
      prefixedInstances = (\<lambda>env. hv_prefixedInstances),
      IngressRules = (\<lambda>env. hv_IngressRules),
      ClosePorts = (\<lambda>env. hv_ClosePorts)\<rparr>"

definition hv_newRawProvider ::
  "cloudSpec \<Rightarrow> bool \<Rightarrow> hypervisor \<Rightarrow> (error + hypervisor rawProvider) \<times> hypervisor" where
  "hv_newRawProvider spec loc h =
     (case hv_faults h (EvNewRawProvider spec loc) of
        Some e \<Rightarrow> (Inl e, h)
      | None \<Rightarrow> (Inr (hv_raw hv_Fingerprint (map_option fst (hv_getCerts spec))), h))"

subsection \<open>A concrete environment\<close>

definition no_faults :: "event \<Rightarrow> error option" where
  "no_faults = (\<lambda>ev. None)"

definition inst0 :: environInstance where
  "inst0 = \<lparr>Id = ''juju-0'',
            Metadata = [JujuModel \<mapsto> ''abc-123'', JujuController \<mapsto> ''ctrl-1'']\<rparr>"

definition inst1 :: environInstance where
  "inst1 = \<lparr>Id = ''juju-1'',
            Metadata = [JujuModel \<mapsto> ''xyz-999'', JujuController \<mapsto> ''ctrl-1'']\<rparr>"

definition inst2 :: environInstance where
  "inst2 = \<lparr>Id = ''juju-2'',
            Metadata = [JujuModel \<mapsto> ''xyz-999'', JujuController \<mapsto> ''ctrl-2'']\<rparr>"

definition hv0 :: hypervisor where
  "hv0 = \<lparr>hv_certs = [], hv_profiles = [], hv_instances = [inst0, inst1, inst2],
          hv_rules = [], hv_faults = no_faults\<rparr>"

definition start :: "hypervisor \<Rightarrow> hypervisor state" where
  "start h = \<lparr>world = h, trace = []\<rparr>"

definition cfg0 :: config where
  "cfg0 = \<lparr>Name = ''controller'', UUID = ''abc-123'', attributes = []\<rparr>"

definition spec0 :: cloudSpec where
  "spec0 = \<lparr>Endpoint = ''unix:///var/lib/lxd/unix.socket'',
            Credential = Some [(''client-cert'', ''CERT''), (''client-key'', ''KEY''),
                               (''server-cert'', ''SERVER'')]\<rparr>"

definition cert0 :: cert where
  "cert0 = \<lparr>Cert_Name = ''juju'', CertPEM = ''CERT'', KeyPEM = ''KEY''\<rparr>"

text \<open>The environment that \<open>newEnviron\<close> builds for \<open>cfg0\<close> on the reference hypervisor.\<close>

definition env0 :: "bool \<Rightarrow> hypervisor environ" where
  "env0 loc =
     \<lparr>cloud = spec0, provider = None, local = loc, name = ''controller'', uuid = ''abc-123'',
      raw = hv_raw hv_Fingerprint (Some cert0), namespace = Namespace ''abc-123'',
      ecfg = \<lparr>Config = cfg0, attrs = []\<rparr>, base = hv_base\<rparr>"

text \<open>A lookup that races with another client: it answers not-found, and the other
  client registers the same certificate before the environment does. \<open>env_raced\<close> is
  the local environment \<open>env0\<close> whose lookups go this way. \<open>hv_refuses\<close> is a
  hypervisor that refuses every registration.\<close>

definition raced_CertByFingerprint :: "string \<Rightarrow> hypervisor \<Rightarrow> (error + cert) \<times> hypervisor" where
  "raced_CertByFingerprint fp h =
     (case hv_CertByFingerprint fp h of
        (Inl e, h') \<Rightarrow> (Inl e, h'\<lparr>hv_certs := hv_certs h' @ [(fp, cert0)]\<rparr>)
      | (Inr c, h') \<Rightarrow> (Inr c, h'))"

definition env_raced :: "hypervisor environ" where
  "env_raced =
     \<lparr>cloud = spec0, provider = None, local = True, name = ''controller'', uuid = ''abc-123'',
      raw = (hv_raw hv_Fingerprint (Some cert0))\<lparr>CertByFingerprint := raced_CertByFingerprint\<rparr>,
      namespace = Namespace ''abc-123'',
      ecfg = \<lparr>Config = cfg0, attrs = []\<rparr>, base = hv_base\<rparr>"

definition hv_refuses :: hypervisor where
  "hv_refuses =
     hv0\<lparr>hv_faults := (\<lambda>ev. case ev of
            EvAddCert c \<Rightarrow> Some (Err Generic ''not authorized'')
          | _ \<Rightarrow> None)\<rparr>"

text \<open>A hypervisor that cannot be reached (every call fails), and one with two open
  ingress rules.\<close>

definition hv_down :: hypervisor where
  "hv_down = hv0\<lparr>hv_faults := (\<lambda>ev. Some (Err Generic ''connection refused''))\<rparr>"

definition hv_open :: hypervisor where
  "hv_open = hv0\<lparr>hv_rules := [IngressRule ''tcp'' 80 80, IngressRule ''tcp'' 8000 8099]\<rparr>"

text \<open>Hypervisors on which one operation fails: the listing of instances, the
  closing of ports (with two rules open), the check for a profile, the removal of
  instances. And one whose trust store already holds the client certificate.\<close>

definition hv_no_listing :: hypervisor where
  "hv_no_listing =
     hv0\<lparr>hv_faults := (\<lambda>ev. case ev of
            EvPrefixedInstances pre \<Rightarrow> Some (Err Generic ''connection reset'')
          | _ \<Rightarrow> None)\<rparr>"

definition hv_stuck :: hypervisor where
  "hv_stuck =
     hv_open\<lparr>hv_faults := (\<lambda>ev. case ev of
            EvClosePorts rules \<Rightarrow> Some (Err Generic ''device busy'')
          | _ \<Rightarrow> None)\<rparr>"

definition hv_no_profiles :: hypervisor where
  "hv_no_profiles =
     hv0\<lparr>hv_faults := (\<lambda>ev. case ev of
            EvHasProfile n \<Rightarrow> Some (Err Generic ''connection reset'')
          | _ \<Rightarrow> None)\<rparr>"

definition hv_no_removal :: hypervisor where
  "hv_no_removal =
     hv0\<lparr>hv_faults := (\<lambda>ev. case ev of
            EvRemoveInstances pre ids \<Rightarrow> Some (Err Generic ''instance busy'')
          | _ \<Rightarrow> None)\<rparr>"

definition hv_trusted :: hypervisor where
  "hv_trusted = hv0\<lparr>hv_certs := [(''sha256:CERT'', cert0)]\<rparr>"

section \<open>Properties\<close>

subsection \<open>Remote calls and traces\<close>

lemma call_eq: "f (world s) = (r, w) \<Longrightarrow> call ev f s = (r, \<lparr>world = w, trace = trace s @ [ev]\<rparr>)"
  by (simp add: call_def)

lemma call_trace: "trace (snd (call ev f s)) = trace s @ [ev]"
  by (simp add: call_def split: prod.split)

lemma hosted_names_filter:
  "hosted_names u c insts names = names @ map Id (filter (hosted u c) insts)"
  by (induction insts arbitrary: names) (auto simp: hosted_def Let_def)

lemma Destroy_trace:
  "\<exists>d. trace (snd (Destroy p env s)) = trace s @ d \<and> (\<forall>ev \<in> set d. stage ev = 1)"
  by (auto simp: Destroy_def call_def split: prod.split sum.split option.split)

lemma sweep_trace:
  "\<exists>d. trace (snd (destroyHostedModelResources p env c s)) = trace s @ d
       \<and> (\<forall>ev \<in> set d. stage ev = 2)"
  by (auto simp: destroyHostedModelResources_def call_def Let_def
           split: prod.split sum.split option.split)

lemma removeCertificate_trace:
  "\<exists>d. trace (snd (removeCertificate p env s)) = trace s @ d \<and> (\<forall>ev \<in> set d. stage ev = 3)"
  by (auto simp: removeCertificate_def call_def split: prod.split sum.split option.split)

lemma stage_cert: "stage ev \<in> {1, 2} \<Longrightarrow> \<not> is_cert_event ev"
  by (cases ev) auto


lemma filter_none: "(\<forall>x \<in> set xs. \<not> P x) \<Longrightarrow> filter P xs = []"
  by (induction xs) auto

lemma Destroy_keeps:
  "(\<And>ev. stage ev = 1 \<Longrightarrow> \<not> P ev) \<Longrightarrow>
   filter P (trace (snd (Destroy p env s))) = filter P (trace s)"
  using Destroy_trace [of p env s] by (auto simp: filter_none)

lemma sweep_keeps:
  "(\<And>ev. stage ev = 2 \<Longrightarrow> \<not> P ev) \<Longrightarrow>
   filter P (trace (snd (destroyHostedModelResources p env c s))) = filter P (trace s)"
  using sweep_trace [of p env c s] by (auto simp: filter_none)


lemma DestroyController_trace:
  "\<exists>d. trace (snd (DestroyController p env c s)) = trace s @ d \<and> sorted (map stage d)
       \<and> (\<forall>ev \<in> set d. 1 \<le> stage ev \<and> (stage ev = 3 \<longrightarrow> local env))"
proof -
  obtain r1 s1 where D: "Destroy p env s = (r1, s1)" by (cases "Destroy p env s")
  obtain r2 s2 where H: "destroyHostedModelResources p env c s1 = (r2, s2)"
    by (cases "destroyHostedModelResources p env c s1")
  obtain r3 s3 where R: "removeCertificate p env s2 = (r3, s3)"
    by (cases "removeCertificate p env s2")
  from Destroy_trace [of p env s] D obtain d1
    where d1: "trace s1 = trace s @ d1" "\<forall>ev \<in> set d1. stage ev = 1" by auto
  from sweep_trace [of p env c s1] H obtain d2
    where d2: "trace s2 = trace s1 @ d2" "\<forall>ev \<in> set d2. stage ev = 2" by auto
  from removeCertificate_trace [of p env s2] R obtain d3
    where d3: "trace s3 = trace s2 @ d3" "\<forall>ev \<in> set d3. stage ev = 3" by auto
  have s1: "sorted (map stage d1)" using d1(2) by (simp add: sorted_wrt_iff_nth_less nth_mem)
  have s2: "sorted (map stage d2)" using d2(2) by (simp add: sorted_wrt_iff_nth_less nth_mem)
  have s3: "sorted (map stage d3)" using d3(2) by (simp add: sorted_wrt_iff_nth_less nth_mem)
  have s12: "sorted (map stage (d1 @ d2))" using s1 s2 d1(2) d2(2) by (auto simp add: sorted_append)
  have s123: "sorted (map stage (d1 @ d2 @ d3))"
    using s1 s2 s3 d1(2) d2(2) d3(2) by (auto simp add: sorted_append)
  show ?thesis
  proof (cases r1)
    case (Some e)
    then have "trace (snd (DestroyController p env c s)) = trace s @ d1"
      using D d1 by (simp add: DestroyController_def)
    then show ?thesis using s1 d1(2) by auto
  next
    case None
    note r1 = None
    show ?thesis
    proof (cases r2)
      case (Some e)
      then have "trace (snd (DestroyController p env c s)) = trace s @ (d1 @ d2)"
        using D H r1 d1 d2 by (simp add: DestroyController_def)
      then show ?thesis using s12 d1(2) d2(2) by (intro exI [of _ "d1 @ d2"]) auto
    next
      case None
      note r2 = None
      show ?thesis
      proof (cases "local env")
        case True
        then have "trace (snd (DestroyController p env c s)) = trace s @ (d1 @ d2 @ d3)"
          using D H R r1 r2 d1 d2 d3 by (simp add: DestroyController_def split: option.split)
        then show ?thesis using s123 d1(2) d2(2) d3(2) True
          by (intro exI [of _ "d1 @ d2 @ d3"]) auto
      next
        case False
        then have "trace (snd (DestroyController p env c s)) = trace s @ (d1 @ d2)"
          using D H r1 r2 d1 d2 by (simp add: DestroyController_def)
        then show ?thesis using s12 d1(2) d2(2) by (intro exI [of _ "d1 @ d2"]) auto
      qed
    qed
  qed
qed

lemma Bootstrap_trust_trace:
  "\<exists>d. trace (snd (Bootstrap_trust p env s)) = trace s @ d \<and> (\<forall>ev \<in> set d. is_cert_event ev)"
  by (auto simp: Bootstrap_trust_def call_def Let_def
           split: prod.split sum.split option.split)

lemma Bootstrap_trust_state:
  "\<exists>d w. snd (Bootstrap_trust p env s) = \<lparr>world = w, trace = trace s @ d\<rparr>
         \<and> (\<forall>ev \<in> set d. is_cert_event ev)"
proof -
  from Bootstrap_trust_trace [of p env s] obtain d
    where d: "trace (snd (Bootstrap_trust p env s)) = trace s @ d" "\<forall>ev \<in> set d. is_cert_event ev"
    by blast
  have "snd (Bootstrap_trust p env s)
        = \<lparr>world = world (snd (Bootstrap_trust p env s)), trace = trace s @ d\<rparr>"
    using d(1) by (cases "snd (Bootstrap_trust p env s)") simp
  with d(2) show ?thesis by blast
qed

lemma cert_not_bootstrap: "is_cert_event ev \<Longrightarrow> \<not> is_BootstrapEnv ev"
  by (cases ev) auto

lemma Destroy_run:
  assumes "IngressRules p env (world s) = (Inr rules, w1)"
    and "(if rules = [] then (None, w1) else ClosePorts p env rules w1) = (None, w2)"
    and "DestroyEnv (base env) w2 = (r, w3)"
  shows "Destroy p env s =
           (map_option Trace r,
            \<lparr>world = w3,
             trace = trace s @ [EvIngressRules]
                       @ (if rules = [] then [] else [EvClosePorts rules]) @ [EvDestroyEnv]\<rparr>)"
  using assms by (cases "rules = []") (auto simp: Destroy_def call_eq split: option.split)

lemma sweep_run:
  assumes "prefixedInstances p env ''juju-'' (world s) = (Inr instances, w4)"
    and "(if filter (hosted (uuid env) c) instances = [] then (None, w4)
          else RemoveInstances (raw env) ''juju-''
                 (map Id (filter (hosted (uuid env) c) instances)) w4) = (r, w5)"
  shows "destroyHostedModelResources p env c s =
           (map_option (\<lambda>e. Annotate e ''removing hosted model instances'') r,
            \<lparr>world = w5,
             trace = trace s @ [EvPrefixedInstances ''juju-'']
                       @ (if filter (hosted (uuid env) c) instances = [] then []
                          else [EvRemoveInstances ''juju-''
                                  (map Id (filter (hosted (uuid env) c) instances))])\<rparr>)"
  using assms
  by (cases "filter (hosted (uuid env) c) instances = []")
     (auto simp: destroyHostedModelResources_def prefix_def call_eq hosted_names_filter Let_def
           split: option.split)

subsection \<open>Runs on the reference hypervisor\<close>

lemmas hv_defs = hv_pkg_def hv_raw_def hv_base_def hv_HasProfile_def hv_CreateProfile_def
  hv_CertByFingerprint_def hv_AddCert_def hv_RemoveCertByFingerprint_def hv_RemoveInstances_def
  hv_prefixedInstances_def hv_IngressRules_def hv_ClosePorts_def hv_BootstrapEnv_def
  hv_DestroyEnv_def hv_newValidConfig_def hv_NewNamespace_def hv_getCerts_def hv_Fingerprint_def
  hv_newRawProvider_def no_faults_def start_def env0_def cert0_def spec0_def cfg0_def


subsection \<open>The sweep of hosted-model instances\<close>



subsection \<open>Trust at bootstrap\<close>

text \<open>
  C2, as the code has it. The trust step of \<open>Bootstrap\<close> fails exactly when the
  hypervisor is local and: no client certificate is configured, or its fingerprint
  cannot be computed, or the lookup fails for a reason other than not-found, or the
  lookup reports not-found and the registration fails for any reason (an "already
  exists" outcome included). When the step fails, \<open>Bootstrap\<close> returns its error and
  no result, and adds no call of the generic strategy to the trace. When it does not
  fail, the step has only called the trust store and the call of the generic strategy
  comes next. For each outcome of the certificate helpers, of the lookup and of the
  registration, the result, the world and the calls of \<open>Bootstrap\<close> are given.
\<close>

theorem Bootstrap_trust_fails_iff:
  "(fst (Bootstrap_trust p env s) \<noteq> None \<longleftrightarrow>
      local env \<and>
      (getCerts p (cloud env) = None
       \<or> (\<exists>c sc. getCerts p (cloud env) = Some (c, sc) \<and>
             (isl (Fingerprint p c)
              \<or> (\<exists>fp e w1. Fingerprint p c = Inr fp
                    \<and> CertByFingerprint (raw env) fp (world s) = (Inl e, w1)
                    \<and> (\<not> IsNotFound (Some e) \<or> fst (AddCert (raw env) c w1) \<noteq> None))))))
   \<and> (fst (Bootstrap_trust p env s) \<noteq> None \<longrightarrow>
        fst (Bootstrap p env ctx params s) = (None, fst (Bootstrap_trust p env s))
        \<and> filter is_BootstrapEnv (trace (snd (Bootstrap p env ctx params s)))
            = filter is_BootstrapEnv (trace s))
   \<and> (fst (Bootstrap_trust p env s) = None \<longrightarrow>
        (\<exists>d w. (\<forall>ev \<in> set d. is_cert_event ev)
           \<and> Bootstrap p env ctx params s =
               call (EvBootstrapEnv ctx params) (BootstrapEnv (base env) ctx params)
                 \<lparr>world = w, trace = trace s @ d\<rparr>))
   \<and> (local env \<and> getCerts p (cloud env) = None \<longrightarrow>
        Bootstrap p env ctx params s =
          ((None, Some (Err Generic ''cannot bootstrap without client certificate'')), s))
   \<and> (local env \<and> getCerts p (cloud env) = Some (c, sc) \<and> Fingerprint p c = Inl e \<longrightarrow>
        Bootstrap p env ctx params s = ((None, Some (Trace e)), s))
   \<and> (local env \<and> getCerts p (cloud env) = Some (c, sc) \<and> Fingerprint p c = Inr fp
        \<and> CertByFingerprint (raw env) fp (world s) = (Inr found, w1) \<longrightarrow>
        Bootstrap p env ctx params s =
          call (EvBootstrapEnv ctx params) (BootstrapEnv (base env) ctx params)
            \<lparr>world = w1, trace = trace s @ [EvCertByFingerprint fp]\<rparr>)
   \<and> (local env \<and> getCerts p (cloud env) = Some (c, sc) \<and> Fingerprint p c = Inr fp
        \<and> CertByFingerprint (raw env) fp (world s) = (Inl e, w1) \<and> \<not> IsNotFound (Some e) \<longrightarrow>
        Bootstrap p env ctx params s =
          ((None, Some (Annotate e ''querying certificates'')),
           \<lparr>world = w1, trace = trace s @ [EvCertByFingerprint fp]\<rparr>))
   \<and> (local env \<and> getCerts p (cloud env) = Some (c, sc) \<and> Fingerprint p c = Inr fp
        \<and> CertByFingerprint (raw env) fp (world s) = (Inl e, w1) \<and> IsNotFound (Some e)
        \<and> AddCert (raw env) c w1 = (Some e', w2) \<longrightarrow>
        Bootstrap p env ctx params s =
          ((None, Some (Annotatef e' ''adding certificate %q'' [Cert_Name c])),
           \<lparr>world = w2, trace = trace s @ [EvCertByFingerprint fp, EvAddCert c]\<rparr>))
   \<and> (local env \<and> getCerts p (cloud env) = Some (c, sc) \<and> Fingerprint p c = Inr fp
        \<and> CertByFingerprint (raw env) fp (world s) = (Inl e, w1) \<and> IsNotFound (Some e)
        \<and> AddCert (raw env) c w1 = (None, w2) \<longrightarrow>
        Bootstrap p env ctx params s =
          call (EvBootstrapEnv ctx params) (BootstrapEnv (base env) ctx params)
            \<lparr>world = w2, trace = trace s @ [EvCertByFingerprint fp, EvAddCert c]\<rparr>)"
proof -
  have A: "fst (Bootstrap_trust p env s) \<noteq> None \<longleftrightarrow>
      local env \<and>
      (getCerts p (cloud env) = None
       \<or> (\<exists>c sc. getCerts p (cloud env) = Some (c, sc) \<and>
             (isl (Fingerprint p c)
              \<or> (\<exists>fp e w1. Fingerprint p c = Inr fp
                    \<and> CertByFingerprint (raw env) fp (world s) = (Inl e, w1)
                    \<and> (\<not> IsNotFound (Some e) \<or> fst (AddCert (raw env) c w1) \<noteq> None)))))"
  proof (cases "local env")
    case False
    then show ?thesis by (simp add: Bootstrap_trust_def)
  next
    case loc: True
    show ?thesis
    proof (cases "getCerts p (cloud env)")
      case None
      with loc show ?thesis by (simp add: Bootstrap_trust_def)
    next
      case (Some a)
      then obtain c sc where g: "getCerts p (cloud env) = Some (c, sc)" by (cases a) auto
      show ?thesis
      proof (cases "Fingerprint p c")
        case (Inl a)
        with loc g show ?thesis by (simp add: Bootstrap_trust_def)
      next
        case fp: (Inr fp)
        obtain x w1 where l: "CertByFingerprint (raw env) fp (world s) = (x, w1)"
          by (cases "CertByFingerprint (raw env) fp (world s)")
        show ?thesis
        proof (cases x)
          case (Inr found)
          with loc g fp l show ?thesis by (simp add: Bootstrap_trust_def call_def)
        next
          case (Inl e)
          obtain q w2 where a: "AddCert (raw env) c w1 = (q, w2)"
            by (cases "AddCert (raw env) c w1")
          from loc g fp l Inl a show ?thesis
            by (cases q) (auto simp: Bootstrap_trust_def call_def)
        qed
      qed
    qed
  qed
  obtain r s1 where T: "Bootstrap_trust p env s = (r, s1)" by (cases "Bootstrap_trust p env s")
  from Bootstrap_trust_state [of p env s] T obtain d w
    where s1: "s1 = \<lparr>world = w, trace = trace s @ d\<rparr>" and d: "\<forall>ev \<in> set d. is_cert_event ev"
    by auto
  have nb: "filter is_BootstrapEnv d = []"
    using d by (auto simp: filter_empty_conv cert_not_bootstrap)
  have B: "fst (Bootstrap_trust p env s) \<noteq> None \<longrightarrow>
        fst (Bootstrap p env ctx params s) = (None, fst (Bootstrap_trust p env s))
        \<and> filter is_BootstrapEnv (trace (snd (Bootstrap p env ctx params s)))
            = filter is_BootstrapEnv (trace s)"
    using T s1 nb by (auto simp: Bootstrap_def)
  have C: "fst (Bootstrap_trust p env s) = None \<longrightarrow>
        (\<exists>d w. (\<forall>ev \<in> set d. is_cert_event ev)
           \<and> Bootstrap p env ctx params s =
               call (EvBootstrapEnv ctx params) (BootstrapEnv (base env) ctx params)
                 \<lparr>world = w, trace = trace s @ d\<rparr>)"
    using T s1 d by (auto simp: Bootstrap_def)
  have 1: "local env \<and> getCerts p (cloud env) = None \<longrightarrow>
        Bootstrap p env ctx params s =
          ((None, Some (Err Generic ''cannot bootstrap without client certificate'')), s)"
    by (simp add: Bootstrap_def Bootstrap_trust_def errors_New_def)
  have 2: "local env \<and> getCerts p (cloud env) = Some (c, sc) \<and> Fingerprint p c = Inl e \<longrightarrow>
        Bootstrap p env ctx params s = ((None, Some (Trace e)), s)"
    by (simp add: Bootstrap_def Bootstrap_trust_def)
  have 3: "local env \<and> getCerts p (cloud env) = Some (c, sc) \<and> Fingerprint p c = Inr fp
        \<and> CertByFingerprint (raw env) fp (world s) = (Inr found, w1) \<longrightarrow>
        Bootstrap p env ctx params s =
          call (EvBootstrapEnv ctx params) (BootstrapEnv (base env) ctx params)
            \<lparr>world = w1, trace = trace s @ [EvCertByFingerprint fp]\<rparr>"
    by (simp add: Bootstrap_def Bootstrap_trust_def call_eq)
  have 4: "local env \<and> getCerts p (cloud env) = Some (c, sc) \<and> Fingerprint p c = Inr fp
        \<and> CertByFingerprint (raw env) fp (world s) = (Inl e, w1) \<and> \<not> IsNotFound (Some e) \<longrightarrow>
        Bootstrap p env ctx params s =
          ((None, Some (Annotate e ''querying certificates'')),
           \<lparr>world = w1, trace = trace s @ [EvCertByFingerprint fp]\<rparr>)"
    by (simp add: Bootstrap_def Bootstrap_trust_def call_eq)
  have 5: "local env \<and> getCerts p (cloud env) = Some (c, sc) \<and> Fingerprint p c = Inr fp
        \<and> CertByFingerprint (raw env) fp (world s) = (Inl e, w1) \<and> IsNotFound (Some e)
        \<and> AddCert (raw env) c w1 = (Some e', w2) \<longrightarrow>
        Bootstrap p env ctx params s =
          ((None, Some (Annotatef e' ''adding certificate %q'' [Cert_Name c])),
           \<lparr>world = w2, trace = trace s @ [EvCertByFingerprint fp, EvAddCert c]\<rparr>)"
    by (simp add: Bootstrap_def Bootstrap_trust_def call_eq)
  have 6: "local env \<and> getCerts p (cloud env) = Some (c, sc) \<and> Fingerprint p c = Inr fp
        \<and> CertByFingerprint (raw env) fp (world s) = (Inl e, w1) \<and> IsNotFound (Some e)
        \<and> AddCert (raw env) c w1 = (None, w2) \<longrightarrow>
        Bootstrap p env ctx params s =
          call (EvBootstrapEnv ctx params) (BootstrapEnv (base env) ctx params)
            \<lparr>world = w2, trace = trace s @ [EvCertByFingerprint fp, EvAddCert c]\<rparr>"
    by (simp add: Bootstrap_def Bootstrap_trust_def call_eq)
  from A B C 1 2 3 4 5 6 show ?thesis by blast
qed

theorem Bootstrap_trust_fails_iff_witness:
  "local (env0 True)
   \<and> getCerts hv_pkg (cloud (env0 True)) = Some (cert0, ''SERVER'')
   \<and> Fingerprint hv_pkg cert0 = Inr ''sha256:CERT''
   \<and> CertByFingerprint (raw (env0 True)) ''sha256:CERT'' (world (start hv_down))
       = (Inl (Err Generic ''connection refused''), hv_down)
   \<and> \<not> IsNotFound (Some (Err Generic ''connection refused''))
   \<and> fst (Bootstrap_trust hv_pkg (env0 True) (start hv_down)) \<noteq> None
   \<and> Bootstrap hv_pkg (env0 True) (BootstrapContext ''ctx'') (BootstrapParams ''params'')
        (start hv_down)
       = ((None, Some (Annotate (Err Generic ''connection refused'') ''querying certificates'')),
          \<lparr>world = hv_down, trace = [EvCertByFingerprint ''sha256:CERT'']\<rparr>)
   \<and> filter is_BootstrapEnv
        (trace (snd (Bootstrap hv_pkg (env0 True) (BootstrapContext ''ctx'')
                       (BootstrapParams ''params'') (start hv_down)))) = []
   \<and> CertByFingerprint (raw (env0 True)) ''sha256:CERT'' (world (start hv_trusted))
       = (Inr cert0, hv_trusted)
   \<and> Bootstrap hv_pkg (env0 True) (BootstrapContext ''ctx'') (BootstrapParams ''params'')
        (start hv_trusted)
       = ((Some (BootstrapResult ''bootstrapped''), None),
          \<lparr>world = hv_trusted,
           trace = [EvCertByFingerprint ''sha256:CERT'',
                    EvBootstrapEnv (BootstrapContext ''ctx'') (BootstrapParams ''params'')]\<rparr>)
   \<and> getCerts hv_pkg (cloud ((env0 True)\<lparr>cloud := spec0\<lparr>Credential := None\<rparr>\<rparr>)) = None
   \<and> Bootstrap hv_pkg ((env0 True)\<lparr>cloud := spec0\<lparr>Credential := None\<rparr>\<rparr>)
        (BootstrapContext ''ctx'') (BootstrapParams ''params'') (start hv0)
       = ((None, Some (Err Generic ''cannot bootstrap without client certificate'')), start hv0)"
proof -
  let ?ctx = "BootstrapContext ''ctx''" and ?params = "BootstrapParams ''params''"
  let ?nocert = "(env0 True)\<lparr>cloud := spec0\<lparr>Credential := None\<rparr>\<rparr>"
  have a: "local (env0 True)" by (simp add: env0_def)
  have b: "getCerts hv_pkg (cloud (env0 True)) = Some (cert0, ''SERVER'')"
    by (simp add: hv_defs)
  have c: "Fingerprint hv_pkg cert0 = Inr ''sha256:CERT''" by (simp add: hv_defs)
  have d: "CertByFingerprint (raw (env0 True)) ''sha256:CERT'' (world (start hv_down))
       = (Inl (Err Generic ''connection refused''), hv_down)"
    by (simp add: hv_defs hv_down_def)
  have e: "\<not> IsNotFound (Some (Err Generic ''connection refused''))" by simp
  note t = Bootstrap_trust_fails_iff [where p = hv_pkg and env = "env0 True"
             and s = "start hv_down" and ctx = ?ctx and params = ?params and c = cert0
             and sc = "''SERVER''" and fp = "''sha256:CERT''"
             and e = "Err Generic ''connection refused''" and ?w1.0 = hv_down]
  from t a b c d e have f: "fst (Bootstrap_trust hv_pkg (env0 True) (start hv_down)) \<noteq> None"
    by blast
  from t a b c d e have g: "Bootstrap hv_pkg (env0 True) ?ctx ?params (start hv_down)
       = ((None, Some (Annotate (Err Generic ''connection refused'') ''querying certificates'')),
          \<lparr>world = hv_down, trace = [EvCertByFingerprint ''sha256:CERT'']\<rparr>)"
    by (simp add: start_def)
  from t f have h: "filter is_BootstrapEnv
        (trace (snd (Bootstrap hv_pkg (env0 True) ?ctx ?params (start hv_down)))) = []"
    by (simp add: start_def)
  have d': "CertByFingerprint (raw (env0 True)) ''sha256:CERT'' (world (start hv_trusted))
       = (Inr cert0, hv_trusted)"
    by (simp add: hv_defs hv_trusted_def hv0_def)
  have be: "BootstrapEnv (base (env0 True)) ?ctx ?params hv_trusted
           = ((Some (BootstrapResult ''bootstrapped''), None), hv_trusted)"
    by (simp add: env0_def hv_base_def hv_BootstrapEnv_def hv_trusted_def hv0_def no_faults_def)
  from Bootstrap_trust_fails_iff [where p = hv_pkg and env = "env0 True"
         and s = "start hv_trusted" and ctx = ?ctx and params = ?params and c = cert0
         and sc = "''SERVER''" and fp = "''sha256:CERT''" and found = cert0
         and ?w1.0 = hv_trusted] a b c d' be
  have i: "Bootstrap hv_pkg (env0 True) ?ctx ?params (start hv_trusted)
       = ((Some (BootstrapResult ''bootstrapped''), None),
          \<lparr>world = hv_trusted,
           trace = [EvCertByFingerprint ''sha256:CERT'', EvBootstrapEnv ?ctx ?params]\<rparr>)"
    by (simp add: start_def call_eq)
  have a': "local ?nocert" by (simp add: env0_def)
  have b': "getCerts hv_pkg (cloud ?nocert) = None" by (simp add: hv_defs)
  from Bootstrap_trust_fails_iff [where p = hv_pkg and env = ?nocert and s = "start hv0"
         and ctx = ?ctx and params = ?params] a' b'
  have j: "Bootstrap hv_pkg ?nocert ?ctx ?params (start hv0)
       = ((None, Some (Err Generic ''cannot bootstrap without client certificate'')), start hv0)"
    by simp
  from a b c d e f g h d' i b' j show ?thesis by blast
qed

text \<open>
  C2, as stated, fails. The lookup reports not-found, another client registers the
  certificate, and the registration of the environment reports "already exists":
  \<open>Bootstrap\<close> returns that error, annotated, and the generic strategy is not called.
\<close>

theorem Bootstrap_already_exists_counterexample:
  "local env_raced
   \<and> getCerts hv_pkg (cloud env_raced) = Some (cert0, ''SERVER'')
   \<and> Fingerprint hv_pkg cert0 = Inr ''sha256:CERT''
   \<and> CertByFingerprint (raw env_raced) ''sha256:CERT'' hv0
       = (Inl (Err NotFound ''certificate not found''), hv_trusted)
   \<and> AddCert (raw env_raced) cert0 hv_trusted
       = (Some (Err AlreadyExists ''certificate already in trust store''), hv_trusted)
   \<and> Bootstrap hv_pkg env_raced (BootstrapContext ''ctx'') (BootstrapParams ''params'')
        (start hv0)
       = ((None, Some (Annotatef (Err AlreadyExists ''certificate already in trust store'')
                         ''adding certificate %q'' [''juju''])),
          \<lparr>world = hv_trusted,
           trace = [EvCertByFingerprint ''sha256:CERT'', EvAddCert cert0]\<rparr>)"
  by (simp add: Bootstrap_def Bootstrap_trust_def call_def hv_defs env_raced_def
        raced_CertByFingerprint_def hv_trusted_def hv0_def)

text \<open>
  C4, as the code has it. For a local environment with a client certificate and its
  fingerprint, whatever the LXD client is, when the lookup reports not-found
  \<open>Bootstrap\<close> calls the registration once, with the client certificate. If the
  registration succeeds, the generic strategy is called next, on the world the
  registration left. If it fails, \<open>Bootstrap\<close> returns the error, annotated, and the
  generic strategy is not called. On the reference hypervisor, whose trust store does
  not hold the fingerprint, a successful registration leaves exactly one certificate
  with that fingerprint, the client's, in the trust store handed to the generic
  strategy.
\<close>

theorem Bootstrap_registers_once:
  "(local env \<and> getCerts p (cloud env) = Some (c, sc) \<and> Fingerprint p c = Inr fp
      \<and> CertByFingerprint (raw env) fp (world s) = (Inl e, w1) \<and> IsNotFound (Some e)
      \<and> AddCert (raw env) c w1 = (None, w2) \<longrightarrow>
        Bootstrap p env ctx params s =
          call (EvBootstrapEnv ctx params) (BootstrapEnv (base env) ctx params)
            \<lparr>world = w2, trace = trace s @ [EvCertByFingerprint fp, EvAddCert c]\<rparr>)
   \<and> (local env \<and> getCerts p (cloud env) = Some (c, sc) \<and> Fingerprint p c = Inr fp
      \<and> CertByFingerprint (raw env) fp (world s) = (Inl e, w1) \<and> IsNotFound (Some e)
      \<and> AddCert (raw env) c w1 = (Some e', w2) \<longrightarrow>
        Bootstrap p env ctx params s =
          ((None, Some (Annotatef e' ''adding certificate %q'' [Cert_Name c])),
           \<lparr>world = w2, trace = trace s @ [EvCertByFingerprint fp, EvAddCert c]\<rparr>))
   \<and> (local env2 \<and> getCerts p2 (cloud env2) = Some (c2, sc2) \<and> Fingerprint p2 c2 = Inr fp2
      \<and> raw env2 = hv_raw (Fingerprint p2) rc
      \<and> map_of (hv_certs h) fp2 = None \<and> hv_faults h (EvCertByFingerprint fp2) = None
      \<and> hv_faults h (EvAddCert c2) = None \<longrightarrow>
        Bootstrap p2 env2 ctx params \<lparr>world = h, trace = tr\<rparr> =
          call (EvBootstrapEnv ctx params) (BootstrapEnv (base env2) ctx params)
            \<lparr>world = h\<lparr>hv_certs := hv_certs h @ [(fp2, c2)]\<rparr>,
             trace = tr @ [EvCertByFingerprint fp2, EvAddCert c2]\<rparr>
        \<and> filter (\<lambda>q. fst q = fp2) (hv_certs h @ [(fp2, c2)]) = [(fp2, c2)])"
proof -
  have 1: "local env \<and> getCerts p (cloud env) = Some (c, sc) \<and> Fingerprint p c = Inr fp
      \<and> CertByFingerprint (raw env) fp (world s) = (Inl e, w1) \<and> IsNotFound (Some e)
      \<and> AddCert (raw env) c w1 = (None, w2) \<longrightarrow>
        Bootstrap p env ctx params s =
          call (EvBootstrapEnv ctx params) (BootstrapEnv (base env) ctx params)
            \<lparr>world = w2, trace = trace s @ [EvCertByFingerprint fp, EvAddCert c]\<rparr>"
    by (simp add: Bootstrap_def Bootstrap_trust_def call_eq)
  have 2: "local env \<and> getCerts p (cloud env) = Some (c, sc) \<and> Fingerprint p c = Inr fp
      \<and> CertByFingerprint (raw env) fp (world s) = (Inl e, w1) \<and> IsNotFound (Some e)
      \<and> AddCert (raw env) c w1 = (Some e', w2) \<longrightarrow>
        Bootstrap p env ctx params s =
          ((None, Some (Annotatef e' ''adding certificate %q'' [Cert_Name c])),
           \<lparr>world = w2, trace = trace s @ [EvCertByFingerprint fp, EvAddCert c]\<rparr>)"
    by (simp add: Bootstrap_def Bootstrap_trust_def call_eq)
  have 3: "Bootstrap p2 env2 ctx params \<lparr>world = h, trace = tr\<rparr> =
          call (EvBootstrapEnv ctx params) (BootstrapEnv (base env2) ctx params)
            \<lparr>world = h\<lparr>hv_certs := hv_certs h @ [(fp2, c2)]\<rparr>,
             trace = tr @ [EvCertByFingerprint fp2, EvAddCert c2]\<rparr>
        \<and> filter (\<lambda>q. fst q = fp2) (hv_certs h @ [(fp2, c2)]) = [(fp2, c2)]"
    if loc: "local env2" and g: "getCerts p2 (cloud env2) = Some (c2, sc2)"
      and f: "Fingerprint p2 c2 = Inr fp2" and r: "raw env2 = hv_raw (Fingerprint p2) rc"
      and a: "map_of (hv_certs h) fp2 = None"
      and nl: "hv_faults h (EvCertByFingerprint fp2) = None"
      and na: "hv_faults h (EvAddCert c2) = None"
  proof -
    have absent: "fp2 \<notin> set (map fst (hv_certs h))"
      using a by (simp add: map_of_eq_None_iff)
    then have cnt: "filter (\<lambda>q. fst q = fp2) (hv_certs h) = []"
      by (force simp: filter_empty_conv)
    have look: "CertByFingerprint (raw env2) fp2 h
                  = (Inl (Err NotFound ''certificate not found''), h)"
      using r a nl by (simp add: hv_raw_def hv_CertByFingerprint_def)
    have ok: "AddCert (raw env2) c2 h = (None, h\<lparr>hv_certs := hv_certs h @ [(fp2, c2)]\<rparr>)"
      using f r absent na by (simp add: hv_raw_def hv_AddCert_def)
    show ?thesis
      using loc g f look ok cnt by (simp add: Bootstrap_def Bootstrap_trust_def call_eq)
  qed
  from 1 2 3 show ?thesis by blast
qed

theorem Bootstrap_registers_once_witness:
  "local (env0 True)
   \<and> getCerts hv_pkg (cloud (env0 True)) = Some (cert0, ''SERVER'')
   \<and> Fingerprint hv_pkg cert0 = Inr ''sha256:CERT''
   \<and> raw (env0 True) = hv_raw (Fingerprint hv_pkg) (Some cert0)
   \<and> map_of (hv_certs hv0) ''sha256:CERT'' = None
   \<and> hv_faults hv0 (EvCertByFingerprint ''sha256:CERT'') = None
   \<and> hv_faults hv0 (EvAddCert cert0) = None
   \<and> CertByFingerprint (raw (env0 True)) ''sha256:CERT'' (world (start hv0))
       = (Inl (Err NotFound ''certificate not found''), hv0)
   \<and> IsNotFound (Some (Err NotFound ''certificate not found''))
   \<and> AddCert (raw (env0 True)) cert0 hv0 = (None, hv_trusted)
   \<and> Bootstrap hv_pkg (env0 True) (BootstrapContext ''ctx'') (BootstrapParams ''params'')
        (start hv0)
       = ((Some (BootstrapResult ''bootstrapped''), None),
          \<lparr>world = hv_trusted,
           trace = [EvCertByFingerprint ''sha256:CERT'', EvAddCert cert0,
                    EvBootstrapEnv (BootstrapContext ''ctx'') (BootstrapParams ''params'')]\<rparr>)
   \<and> filter (\<lambda>q. fst q = ''sha256:CERT'') (hv_certs hv_trusted) = [(''sha256:CERT'', cert0)]
   \<and> CertByFingerprint (raw (env0 True)) ''sha256:CERT'' (world (start hv_refuses))
       = (Inl (Err NotFound ''certificate not found''), hv_refuses)
   \<and> AddCert (raw (env0 True)) cert0 hv_refuses
       = (Some (Err Generic ''not authorized''), hv_refuses)
   \<and> fst (Bootstrap hv_pkg (env0 True) (BootstrapContext ''ctx'') (BootstrapParams ''params'')
        (start hv_refuses))
       = (None, Some (Annotatef (Err Generic ''not authorized'') ''adding certificate %q''
                        [''juju'']))"
proof -
  let ?ctx = "BootstrapContext ''ctx''" and ?params = "BootstrapParams ''params''"
  have a: "local (env0 True)" by (simp add: env0_def)
  have b: "getCerts hv_pkg (cloud (env0 True)) = Some (cert0, ''SERVER'')"
    by (simp add: hv_defs)
  have c: "Fingerprint hv_pkg cert0 = Inr ''sha256:CERT''" by (simp add: hv_defs)
  have d: "raw (env0 True) = hv_raw (Fingerprint hv_pkg) (Some cert0)"
    by (simp add: env0_def hv_pkg_def)
  have e: "map_of (hv_certs hv0) ''sha256:CERT'' = None" by (simp add: hv0_def)
  have f: "hv_faults hv0 (EvCertByFingerprint ''sha256:CERT'') = None"
    by (simp add: hv0_def no_faults_def)
  have g: "hv_faults hv0 (EvAddCert cert0) = None" by (simp add: hv0_def no_faults_def)
  have l: "CertByFingerprint (raw (env0 True)) ''sha256:CERT'' (world (start hv0))
       = (Inl (Err NotFound ''certificate not found''), hv0)"
    by (simp add: hv_defs hv0_def)
  have nf: "IsNotFound (Some (Err NotFound ''certificate not found''))" by simp
  have ad: "AddCert (raw (env0 True)) cert0 hv0 = (None, hv_trusted)"
    by (simp add: hv_defs hv0_def hv_trusted_def)
  have h: "BootstrapEnv (base (env0 True)) ?ctx ?params hv_trusted
           = ((Some (BootstrapResult ''bootstrapped''), None), hv_trusted)"
    by (simp add: env0_def hv_base_def hv_BootstrapEnv_def hv_trusted_def hv0_def no_faults_def)
  have t: "hv0\<lparr>hv_certs := hv_certs hv0 @ [(''sha256:CERT'', cert0)]\<rparr> = hv_trusted"
    by (simp add: hv_trusted_def hv0_def)
  have l': "CertByFingerprint (raw (env0 True)) ''sha256:CERT'' (world (start hv_refuses))
       = (Inl (Err NotFound ''certificate not found''), hv_refuses)"
    by (simp add: hv_defs hv_refuses_def hv0_def)
  have ad': "AddCert (raw (env0 True)) cert0 hv_refuses
       = (Some (Err Generic ''not authorized''), hv_refuses)"
    by (simp add: hv_defs hv_refuses_def)
  have n: "Cert_Name cert0 = ''juju''" by (simp add: cert0_def)
  have ct: "hv_certs hv_trusted = [(''sha256:CERT'', cert0)]" by (simp add: hv_trusted_def)
  from Bootstrap_registers_once [where p = hv_pkg and env = "env0 True" and c = cert0
         and sc = "''SERVER''" and fp = "''sha256:CERT''" and s = "start hv0"
         and e = "Err NotFound ''certificate not found''" and ?w1.0 = hv0 and ?w2.0 = hv_trusted
         and ctx = ?ctx and params = ?params
         and ?p2.0 = hv_pkg and ?env2.0 = "env0 True" and ?c2.0 = cert0 and ?sc2.0 = "''SERVER''"
         and ?fp2.0 = "''sha256:CERT''" and rc = "Some cert0" and h = hv0 and tr = "[]"]
       Bootstrap_registers_once [where p = hv_pkg and env = "env0 True" and c = cert0
         and sc = "''SERVER''" and fp = "''sha256:CERT''" and s = "start hv_refuses"
         and e = "Err NotFound ''certificate not found''" and ?w1.0 = hv_refuses
         and ?w2.0 = hv_refuses and e' = "Err Generic ''not authorized''"
         and ctx = ?ctx and params = ?params]
       a b c d e f g l nf ad h t l' ad' n ct
  show ?thesis by (simp add: start_def call_eq)
qed

text \<open>
  C4, as stated, fails: when the hypervisor refuses the registration, no certificate
  with the fingerprint is registered afterwards and \<open>Bootstrap\<close> does not reach the
  generic strategy.
\<close>

theorem Bootstrap_registration_refused_counterexample:
  "local (env0 True)
   \<and> map_of (hv_certs hv_refuses) ''sha256:CERT'' = None
   \<and> CertByFingerprint (raw (env0 True)) ''sha256:CERT'' hv_refuses
       = (Inl (Err NotFound ''certificate not found''), hv_refuses)
   \<and> Bootstrap hv_pkg (env0 True) (BootstrapContext ''ctx'') (BootstrapParams ''params'')
        (start hv_refuses)
       = ((None, Some (Annotatef (Err Generic ''not authorized'') ''adding certificate %q''
                         [''juju''])),
          \<lparr>world = hv_refuses,
           trace = [EvCertByFingerprint ''sha256:CERT'', EvAddCert cert0]\<rparr>)
   \<and> hv_certs hv_refuses = []"
  by (simp add: Bootstrap_def Bootstrap_trust_def call_def hv_defs hv_refuses_def hv0_def)

subsection \<open>Destroy\<close>

text \<open>
  C3. \<open>Destroy\<close> first lists the ingress rules. If the listing fails, nothing else is
  called and the error is returned. If no rule is open, \<open>ClosePorts\<close> is not called and
  the generic destroy runs next. If rules are open, \<open>ClosePorts\<close> is called with all of
  them before the generic destroy; if closing fails, the generic destroy is not called.
  The error of the generic destroy is returned.
\<close>

theorem Destroy_closes_ports_first:
  "(IngressRules p env (world s) = (Inl e, w1) \<longrightarrow>
      Destroy p env s = (Some (Trace e), \<lparr>world = w1, trace = trace s @ [EvIngressRules]\<rparr>))
   \<and> (IngressRules p env (world s) = (Inr [], w1) \<and> DestroyEnv (base env) w1 = (r, w2) \<longrightarrow>
      Destroy p env s =
        (map_option Trace r, \<lparr>world = w2, trace = trace s @ [EvIngressRules, EvDestroyEnv]\<rparr>))
   \<and> (IngressRules p env (world s) = (Inr rules, w1) \<and> rules \<noteq> []
        \<and> ClosePorts p env rules w1 = (Some e, w2) \<longrightarrow>
      Destroy p env s =
        (Some (Trace e), \<lparr>world = w2, trace = trace s @ [EvIngressRules, EvClosePorts rules]\<rparr>))
   \<and> (IngressRules p env (world s) = (Inr rules, w1) \<and> rules \<noteq> []
        \<and> ClosePorts p env rules w1 = (None, w2) \<and> DestroyEnv (base env) w2 = (r, w3) \<longrightarrow>
      Destroy p env s =
        (map_option Trace r,
         \<lparr>world = w3, trace = trace s @ [EvIngressRules, EvClosePorts rules, EvDestroyEnv]\<rparr>))"
  by (auto simp add: Destroy_def call_eq split: option.split)

theorem Destroy_closes_ports_first_witness:
  "IngressRules hv_pkg (env0 True) (world (start hv0)) = (Inr [], hv0)
   \<and> Destroy hv_pkg (env0 True) (start hv0)
       = (None, \<lparr>world = hv0, trace = [EvIngressRules, EvDestroyEnv]\<rparr>)
   \<and> IngressRules hv_pkg (env0 True) (world (start hv_open))
       = (Inr [IngressRule ''tcp'' 80 80, IngressRule ''tcp'' 8000 8099], hv_open)
   \<and> Destroy hv_pkg (env0 True) (start hv_open)
       = (None, \<lparr>world = hv0,
                 trace = [EvIngressRules,
                          EvClosePorts [IngressRule ''tcp'' 80 80, IngressRule ''tcp'' 8000 8099],
                          EvDestroyEnv]\<rparr>)
   \<and> IngressRules hv_pkg (env0 True) (world (start hv_down))
       = (Inl (Err Generic ''connection refused''), hv_down)
   \<and> Destroy hv_pkg (env0 True) (start hv_down)
       = (Some (Trace (Err Generic ''connection refused'')),
          \<lparr>world = hv_down, trace = [EvIngressRules]\<rparr>)
   \<and> ClosePorts hv_pkg (env0 True) [IngressRule ''tcp'' 80 80, IngressRule ''tcp'' 8000 8099]
        hv_stuck = (Some (Err Generic ''device busy''), hv_stuck)
   \<and> Destroy hv_pkg (env0 True) (start hv_stuck)
       = (Some (Trace (Err Generic ''device busy'')),
          \<lparr>world = hv_stuck,
           trace = [EvIngressRules,
                    EvClosePorts [IngressRule ''tcp'' 80 80, IngressRule ''tcp'' 8000 8099]]\<rparr>)"
proof -
  let ?rules = "[IngressRule ''tcp'' 80 80, IngressRule ''tcp'' 8000 8099]"
  have a: "IngressRules hv_pkg (env0 True) (world (start hv0)) = (Inr [], hv0)"
    by (simp add: hv_pkg_def hv_IngressRules_def start_def hv0_def no_faults_def)
  have a': "DestroyEnv (base (env0 True)) hv0 = (None, hv0)"
    by (simp add: env0_def hv_base_def hv_DestroyEnv_def hv0_def no_faults_def)
  have b: "IngressRules hv_pkg (env0 True) (world (start hv_open)) = (Inr ?rules, hv_open)"
    by (simp add: hv_pkg_def hv_IngressRules_def start_def hv_open_def hv0_def no_faults_def)
  have b': "ClosePorts hv_pkg (env0 True) ?rules hv_open = (None, hv0)"
    by (simp add: hv_pkg_def hv_ClosePorts_def hv_open_def hv0_def no_faults_def)
  have c: "IngressRules hv_pkg (env0 True) (world (start hv_down))
       = (Inl (Err Generic ''connection refused''), hv_down)"
    by (simp add: hv_pkg_def hv_IngressRules_def start_def hv_down_def)
  have d: "IngressRules hv_pkg (env0 True) (world (start hv_stuck)) = (Inr ?rules, hv_stuck)"
    by (simp add: hv_pkg_def hv_IngressRules_def start_def hv_stuck_def hv_open_def hv0_def)
  have d': "ClosePorts hv_pkg (env0 True) ?rules hv_stuck
              = (Some (Err Generic ''device busy''), hv_stuck)"
    by (simp add: hv_pkg_def hv_ClosePorts_def hv_stuck_def)
  from Destroy_closes_ports_first [where p = hv_pkg and env = "env0 True" and s = "start hv0"
         and ?w1.0 = hv0 and r = None and ?w2.0 = hv0]
       Destroy_closes_ports_first [where p = hv_pkg and env = "env0 True" and s = "start hv_open"
         and ?w1.0 = hv_open and rules = ?rules and ?w2.0 = hv0 and r = None and ?w3.0 = hv0]
       Destroy_closes_ports_first [where p = hv_pkg and env = "env0 True" and s = "start hv_down"
         and ?w1.0 = hv_down and e = "Err Generic ''connection refused''"]
       Destroy_closes_ports_first [where p = hv_pkg and env = "env0 True" and s = "start hv_stuck"
         and ?w1.0 = hv_stuck and rules = ?rules and ?w2.0 = hv_stuck
         and e = "Err Generic ''device busy''"]
       a a' b b' c d d'
  show ?thesis by (simp add: start_def)
qed

subsection \<open>Remote hypervisors\<close>

text \<open>
  C5. When the hypervisor is not local, \<open>Bootstrap\<close> is the call of the generic
  bootstrap strategy and nothing else, and neither \<open>Bootstrap\<close> nor
  \<open>DestroyController\<close> adds a call to the trust store (lookup, registration or
  removal) to the trace.
\<close>

theorem remote_no_certificate_calls:
  assumes "\<not> local env"
  shows "Bootstrap p env ctx params s =
           call (EvBootstrapEnv ctx params) (BootstrapEnv (base env) ctx params) s
         \<and> filter is_cert_event (trace (snd (Bootstrap p env ctx params s)))
             = filter is_cert_event (trace s)
         \<and> filter is_cert_event (trace (snd (DestroyController p env c s)))
             = filter is_cert_event (trace s)"
proof -
  have B: "Bootstrap p env ctx params s =
           call (EvBootstrapEnv ctx params) (BootstrapEnv (base env) ctx params) s"
    using assms by (simp add: Bootstrap_def Bootstrap_trust_def)
  have T: "filter is_cert_event (trace (snd (Bootstrap p env ctx params s)))
             = filter is_cert_event (trace s)"
    by (simp add: B call_trace)
  obtain r1 s1 where D: "Destroy p env s = (r1, s1)" by (cases "Destroy p env s")
  obtain r2 s2 where H: "destroyHostedModelResources p env c s1 = (r2, s2)"
    by (cases "destroyHostedModelResources p env c s1")
  have k1: "filter is_cert_event (trace s1) = filter is_cert_event (trace s)"
    using Destroy_keeps [of is_cert_event p env s] D by (simp add: stage_cert)
  have k2: "filter is_cert_event (trace s2) = filter is_cert_event (trace s1)"
    using sweep_keeps [of is_cert_event p env c s1] H by (simp add: stage_cert)
  have "trace (snd (DestroyController p env c s)) = trace s1
        \<or> trace (snd (DestroyController p env c s)) = trace s2"
    using assms D H by (auto simp: DestroyController_def split: option.split)
  then have "filter is_cert_event (trace (snd (DestroyController p env c s)))
             = filter is_cert_event (trace s)"
    using k1 k2 by auto
  with B T show ?thesis by simp
qed

theorem remote_no_certificate_calls_witness:
  "\<not> local (env0 False)
   \<and> Bootstrap hv_pkg (env0 False) (BootstrapContext ''ctx'') (BootstrapParams ''params'') (start hv0)
       = ((Some (BootstrapResult ''bootstrapped''), None),
          \<lparr>world = hv0,
           trace = [EvBootstrapEnv (BootstrapContext ''ctx'') (BootstrapParams ''params'')]\<rparr>)
   \<and> filter is_cert_event
        (trace (snd (DestroyController hv_pkg (env0 False) ''ctrl-1'' (start hv0)))) = []"
proof -
  have a: "\<not> local (env0 False)" by (simp add: env0_def)
  from remote_no_certificate_calls [OF a, of hv_pkg "BootstrapContext ''ctx''"
         "BootstrapParams ''params''" "start hv0" "''ctrl-1''"] a
  show ?thesis
    by (simp add: call_def start_def env0_def hv_base_def hv_BootstrapEnv_def hv0_def no_faults_def)
qed

subsection \<open>Construction\<close>

text \<open>
  C6. \<open>initProfile\<close> asks for the profile \<open>juju-\<close> followed by the environment's name.
  If the answer is yes it returns no error and calls nothing else. If the answer is no
  it calls \<open>CreateProfile\<close> for that name with the two settings
  \<open>boot.autostart = true\<close> and \<open>security.nesting = true\<close>, and returns what the call
  returns. On the reference hypervisor, once \<open>initProfile\<close> has succeeded, a second
  run succeeds too, only asks whether the profile exists and leaves the hypervisor as it
  is; a profile that was absent at first is there exactly once.
\<close>

theorem initProfile_idempotent:
  "(HasProfile (raw env) (''juju-'' @ Name (Config (ecfg env))) (world s) = (Inr True, w1) \<longrightarrow>
      initProfile env s =
        (None, \<lparr>world = w1,
                trace = trace s @ [EvHasProfile (''juju-'' @ Name (Config (ecfg env)))]\<rparr>))
   \<and> (HasProfile (raw env) (''juju-'' @ Name (Config (ecfg env))) (world s) = (Inr False, w1)
        \<and> CreateProfile (raw env) (''juju-'' @ Name (Config (ecfg env)))
             [''boot.autostart'' \<mapsto> ''true'', ''security.nesting'' \<mapsto> ''true''] w1 = (r, w2) \<longrightarrow>
      initProfile env s =
        (r, \<lparr>world = w2,
             trace = trace s @
               [EvHasProfile (''juju-'' @ Name (Config (ecfg env))),
                EvCreateProfile (''juju-'' @ Name (Config (ecfg env)))
                  [''boot.autostart'' \<mapsto> ''true'', ''security.nesting'' \<mapsto> ''true'']]\<rparr>))
   \<and> (raw env2 = hv_raw fpr rc \<and> initProfile env2 s0 = (None, s1) \<longrightarrow>
      initProfile env2 s1 =
        (None, \<lparr>world = world s1,
                trace = trace s1 @ [EvHasProfile (''juju-'' @ Name (Config (ecfg env2)))]\<rparr>)
      \<and> (''juju-'' @ Name (Config (ecfg env2)) \<notin> set (map fst (hv_profiles (world s0))) \<longrightarrow>
           length (filter (\<lambda>q. fst q = ''juju-'' @ Name (Config (ecfg env2)))
                     (hv_profiles (world s1))) = 1))"
proof -
  have 1: "HasProfile (raw env) (''juju-'' @ Name (Config (ecfg env))) (world s) = (Inr True, w1) \<longrightarrow>
      initProfile env s =
        (None, \<lparr>world = w1,
                trace = trace s @ [EvHasProfile (''juju-'' @ Name (Config (ecfg env)))]\<rparr>)"
    by (simp add: initProfile_def profileName_def call_def)
  have 2: "HasProfile (raw env) (''juju-'' @ Name (Config (ecfg env))) (world s) = (Inr False, w1)
        \<and> CreateProfile (raw env) (''juju-'' @ Name (Config (ecfg env)))
             [''boot.autostart'' \<mapsto> ''true'', ''security.nesting'' \<mapsto> ''true''] w1 = (r, w2) \<longrightarrow>
      initProfile env s =
        (r, \<lparr>world = w2,
             trace = trace s @
               [EvHasProfile (''juju-'' @ Name (Config (ecfg env))),
                EvCreateProfile (''juju-'' @ Name (Config (ecfg env)))
                  [''boot.autostart'' \<mapsto> ''true'', ''security.nesting'' \<mapsto> ''true'']]\<rparr>)"
    by (simp add: initProfile_def profileName_def call_def defaultProfileConfig_def)
  have 3: "initProfile env2 s1 =
        (None, \<lparr>world = world s1,
                trace = trace s1 @ [EvHasProfile (''juju-'' @ Name (Config (ecfg env2)))]\<rparr>)
      \<and> (''juju-'' @ Name (Config (ecfg env2)) \<notin> set (map fst (hv_profiles (world s0))) \<longrightarrow>
           length (filter (\<lambda>q. fst q = ''juju-'' @ Name (Config (ecfg env2)))
                     (hv_profiles (world s1))) = 1)"
    if raw: "raw env2 = hv_raw fpr rc" and first: "initProfile env2 s0 = (None, s1)"
  proof -
    let ?n = "''juju-'' @ Name (Config (ecfg env2))"
    have nf: "hv_faults (world s0) (EvHasProfile ?n) = None"
      using first raw
      by (auto simp: initProfile_def profileName_def call_def hv_raw_def hv_HasProfile_def
               split: option.splits)
    show ?thesis
    proof (cases "?n \<in> set (map fst (hv_profiles (world s0)))")
      case True
      then have s1: "s1 = \<lparr>world = world s0, trace = trace s0 @ [EvHasProfile ?n]\<rparr>"
        using first raw nf
        by (simp add: initProfile_def profileName_def call_def hv_raw_def hv_HasProfile_def)
      then show ?thesis using True raw nf
        by (simp add: initProfile_def profileName_def call_def hv_raw_def hv_HasProfile_def)
    next
      case False
      then have s1: "s1 = \<lparr>world = (world s0)\<lparr>hv_profiles :=
                               hv_profiles (world s0) @ [(?n, defaultProfileConfig)]\<rparr>,
                            trace = trace s0 @ [EvHasProfile ?n,
                                                EvCreateProfile ?n defaultProfileConfig]\<rparr>"
        using first raw nf
        by (auto simp: initProfile_def profileName_def call_def hv_raw_def hv_HasProfile_def
              hv_CreateProfile_def split: option.splits)
      have cnt: "filter (\<lambda>q. fst q = ?n) (hv_profiles (world s0)) = []"
        using False by (force simp: filter_empty_conv)
      show ?thesis using False raw nf cnt
        by (simp add: s1 initProfile_def profileName_def call_def hv_raw_def hv_HasProfile_def)
    qed
  qed
  from 1 2 3 show ?thesis by blast
qed

theorem initProfile_idempotent_witness:
  "HasProfile (raw (env0 True)) ''juju-controller'' (world (start hv0)) = (Inr False, hv0)
   \<and> initProfile (env0 True) (start hv0) =
       (None, \<lparr>world = hv0\<lparr>hv_profiles :=
                  [(''juju-controller'',
                    [''boot.autostart'' \<mapsto> ''true'', ''security.nesting'' \<mapsto> ''true''])]\<rparr>,
               trace = [EvHasProfile ''juju-controller'',
                        EvCreateProfile ''juju-controller''
                          [''boot.autostart'' \<mapsto> ''true'', ''security.nesting'' \<mapsto> ''true'']]\<rparr>)
   \<and> HasProfile (raw (env0 True)) ''juju-controller''
        (hv0\<lparr>hv_profiles := [(''juju-controller'', defaultProfileConfig)]\<rparr>)
       = (Inr True, hv0\<lparr>hv_profiles := [(''juju-controller'', defaultProfileConfig)]\<rparr>)
   \<and> initProfile (env0 True)
        \<lparr>world = hv0\<lparr>hv_profiles := [(''juju-controller'', defaultProfileConfig)]\<rparr>,
         trace = [EvHasProfile ''juju-controller'',
                  EvCreateProfile ''juju-controller'' defaultProfileConfig]\<rparr> =
       (None, \<lparr>world = hv0\<lparr>hv_profiles := [(''juju-controller'', defaultProfileConfig)]\<rparr>,
               trace = [EvHasProfile ''juju-controller'',
                        EvCreateProfile ''juju-controller'' defaultProfileConfig,
                        EvHasProfile ''juju-controller'']\<rparr>)
   \<and> length (filter (\<lambda>q. fst q = ''juju-controller'')
               (hv_profiles (hv0\<lparr>hv_profiles := [(''juju-controller'', defaultProfileConfig)]\<rparr>)))
       = 1"
proof -
  let ?h1 = "hv0\<lparr>hv_profiles := [(''juju-controller'', defaultProfileConfig)]\<rparr>"
  let ?s1 = "\<lparr>world = ?h1, trace = [EvHasProfile ''juju-controller'',
                  EvCreateProfile ''juju-controller'' defaultProfileConfig]\<rparr>"
  have n: "''juju-'' @ Name (Config (ecfg (env0 True))) = ''juju-controller''"
    by (simp add: env0_def cfg0_def)
  have a: "HasProfile (raw (env0 True)) ''juju-controller'' (world (start hv0)) = (Inr False, hv0)"
    by (simp add: hv_defs hv0_def)
  have b: "CreateProfile (raw (env0 True)) ''juju-controller''
             [''boot.autostart'' \<mapsto> ''true'', ''security.nesting'' \<mapsto> ''true''] hv0 = (None, ?h1)"
    by (simp add: hv_defs hv0_def defaultProfileConfig_def)
  have c: "HasProfile (raw (env0 True)) ''juju-controller'' (world ?s1) = (Inr True, ?h1)"
    by (simp add: hv_defs hv0_def)
  have r: "raw (env0 True) = hv_raw hv_Fingerprint (Some cert0)" by (simp add: env0_def)
  have f: "''juju-controller'' \<notin> set (map fst (hv_profiles (world (start hv0))))"
    by (simp add: start_def hv0_def)
  from initProfile_idempotent [where env = "env0 True" and s = "start hv0" and ?w1.0 = hv0
         and r = None and ?w2.0 = ?h1 and ?env2.0 = "env0 True" and fpr = hv_Fingerprint
         and rc = "Some cert0" and ?s0.0 = "start hv0" and ?s1.0 = ?s1]
       initProfile_idempotent [where env = "env0 True" and s = ?s1 and ?w1.0 = ?h1]
       n a b c r f
  show ?thesis by (simp add: start_def defaultProfileConfig_def)
qed

text \<open>
  C7. \<open>newEnviron\<close> returns either an environment and no error, or an error and no
  environment. It returns an environment exactly when the validation of the
  configuration, the derivation of the namespace, the connection to the hypervisor and
  the initialisation of the profile have all succeeded.
\<close>

theorem newEnviron_all_or_nothing:
  assumes "newEnviron p prov loc spec cfg nrp s = ((r, e), s')"
  shows "(r = None \<longleftrightarrow> e \<noteq> None)
       \<and> (r \<noteq> None \<longleftrightarrow>
            (\<exists>ec ns rw w1 env.
               newValidConfig p cfg = Inr ec
               \<and> NewNamespace p (UUID cfg) = Inr ns
               \<and> nrp spec loc (world s) = (Inr rw, w1)
               \<and> r = Some env \<and> raw env = rw \<and> ecfg env = ec \<and> namespace env = ns
               \<and> initProfile env \<lparr>world = w1, trace = trace s @ [EvNewRawProvider spec loc]\<rparr>
                   = (None, s')))"
proof (cases "newValidConfig p cfg")
  case (Inl a)
  with assms show ?thesis by (auto simp: newEnviron_def)
next
  case ec: (Inr ec)
  show ?thesis
  proof (cases "NewNamespace p (UUID cfg)")
    case (Inl a)
    with assms ec show ?thesis by (auto simp: newEnviron_def)
  next
    case ns: (Inr ns)
    obtain x w1 where n: "nrp spec loc (world s) = (x, w1)" by (cases "nrp spec loc (world s)")
    show ?thesis
    proof (cases x)
      case (Inl a)
      with assms ec ns n show ?thesis by (auto simp: newEnviron_def call_def)
    next
      case rw: (Inr rw)
      let ?env = "\<lparr>cloud = spec, provider = None, local = loc,
                     name = Name (Config ec), uuid = UUID (Config ec), raw = rw,
                     namespace = ns, ecfg = ec,
                     base = DefaultProvider p \<lparr>cloud = spec, provider = None, local = loc,
                      name = Name (Config ec), uuid = UUID (Config ec), raw = rw,
                      namespace = ns, ecfg = ec\<rparr>\<rparr>"
      let ?s1 = "\<lparr>world = w1, trace = trace s @ [EvNewRawProvider spec loc]\<rparr>"
      obtain q s2 where i: "initProfile ?env ?s1 = (q, s2)" by (cases "initProfile ?env ?s1")
      show ?thesis
      proof (cases q)
        case None
        with assms ec ns n rw i have "r = Some ?env" "e = None" "s' = s2"
          by (auto simp: newEnviron_def call_def Let_def)
        with ec ns n rw i None show ?thesis by auto
      next
        case (Some a)
        with assms ec ns n rw i have "r = None" "e = Some (Trace a)" "s' = s2"
          by (auto simp: newEnviron_def call_def Let_def)
        with ec ns n rw i Some show ?thesis by auto
      qed
    qed
  qed
qed

theorem newEnviron_all_or_nothing_witness:
  "newEnviron hv_pkg None True spec0 cfg0 hv_newRawProvider (start hv0) =
     ((Some (env0 True), None),
      \<lparr>world = hv0\<lparr>hv_profiles := [(''juju-controller'', defaultProfileConfig)]\<rparr>,
       trace = [EvNewRawProvider spec0 True, EvHasProfile ''juju-controller'',
                EvCreateProfile ''juju-controller'' defaultProfileConfig]\<rparr>)
   \<and> newValidConfig hv_pkg cfg0 = Inr \<lparr>Config = cfg0, attrs = []\<rparr>
   \<and> NewNamespace hv_pkg (UUID cfg0) = Inr (Namespace ''abc-123'')
   \<and> fst (hv_newRawProvider spec0 True (world (start hv0))) = Inr (raw (env0 True))
   \<and> newEnviron hv_pkg None True spec0 cfg0 hv_newRawProvider (start hv_down) =
       ((None, Some (Trace (Err Generic ''connection refused''))),
        \<lparr>world = hv_down, trace = [EvNewRawProvider spec0 True]\<rparr>)
   \<and> fst (hv_newRawProvider spec0 True (world (start hv_down)))
       = Inl (Err Generic ''connection refused'')
   \<and> newEnviron hv_pkg None True spec0 cfg0 hv_newRawProvider (start hv_no_profiles) =
       ((None, Some (Trace (Trace (Err Generic ''connection reset'')))),
        \<lparr>world = hv_no_profiles,
         trace = [EvNewRawProvider spec0 True, EvHasProfile ''juju-controller'']\<rparr>)
   \<and> newEnviron hv_pkg None True spec0 (cfg0\<lparr>Name := []\<rparr>) hv_newRawProvider (start hv0) =
       ((None, Some (Annotate (Err Generic ''empty name'') ''invalid config'')), start hv0)
   \<and> newValidConfig hv_pkg (cfg0\<lparr>Name := []\<rparr>) = Inl (Err Generic ''empty name'')
   \<and> newEnviron hv_pkg None True spec0 (cfg0\<lparr>UUID := []\<rparr>) hv_newRawProvider (start hv0) =
       ((None, Some (Trace (Err Generic ''invalid model UUID''))), start hv0)
   \<and> NewNamespace hv_pkg (UUID (cfg0\<lparr>UUID := []\<rparr>)) = Inl (Err Generic ''invalid model UUID'')"
proof -
  have a: "newEnviron hv_pkg None True spec0 cfg0 hv_newRawProvider (start hv0) =
     ((Some (env0 True), None),
      \<lparr>world = hv0\<lparr>hv_profiles := [(''juju-controller'', defaultProfileConfig)]\<rparr>,
       trace = [EvNewRawProvider spec0 True, EvHasProfile ''juju-controller'',
                EvCreateProfile ''juju-controller'' defaultProfileConfig]\<rparr>)"
    by (simp add: newEnviron_def initProfile_def profileName_def call_def hv_defs hv0_def)
  have b: "newEnviron hv_pkg None True spec0 cfg0 hv_newRawProvider (start hv_down) =
       ((None, Some (Trace (Err Generic ''connection refused''))),
        \<lparr>world = hv_down, trace = [EvNewRawProvider spec0 True]\<rparr>)"
    by (simp add: newEnviron_def call_def hv_defs hv_down_def)
  have c: "fst (hv_newRawProvider spec0 True (world (start hv_down)))
       = Inl (Err Generic ''connection refused'')"
    by (simp add: hv_defs hv_down_def)
  have d: "ecfg (env0 True) = \<lparr>Config = cfg0, attrs = []\<rparr>"
    "namespace (env0 True) = Namespace ''abc-123''"
    by (simp_all add: env0_def)
  have e: "newEnviron hv_pkg None True spec0 cfg0 hv_newRawProvider (start hv_no_profiles) =
       ((None, Some (Trace (Trace (Err Generic ''connection reset'')))),
        \<lparr>world = hv_no_profiles,
         trace = [EvNewRawProvider spec0 True, EvHasProfile ''juju-controller'']\<rparr>)"
    by (simp add: newEnviron_def initProfile_def profileName_def call_def hv_defs
          hv_no_profiles_def)
  have f: "newEnviron hv_pkg None True spec0 (cfg0\<lparr>Name := []\<rparr>) hv_newRawProvider (start hv0) =
       ((None, Some (Annotate (Err Generic ''empty name'') ''invalid config'')), start hv0)"
    by (simp add: newEnviron_def hv_pkg_def hv_newValidConfig_def)
  have g: "newEnviron hv_pkg None True spec0 (cfg0\<lparr>UUID := []\<rparr>) hv_newRawProvider (start hv0) =
       ((None, Some (Trace (Err Generic ''invalid model UUID''))), start hv0)"
    by (simp add: newEnviron_def hv_pkg_def hv_newValidConfig_def hv_NewNamespace_def cfg0_def)
  have h: "newValidConfig hv_pkg (cfg0\<lparr>Name := []\<rparr>) = Inl (Err Generic ''empty name'')"
    "NewNamespace hv_pkg (UUID (cfg0\<lparr>UUID := []\<rparr>)) = Inl (Err Generic ''invalid model UUID'')"
    by (simp_all add: hv_pkg_def hv_newValidConfig_def hv_NewNamespace_def)
  from newEnviron_all_or_nothing [OF a] newEnviron_all_or_nothing [OF b]
       newEnviron_all_or_nothing [OF e] newEnviron_all_or_nothing [OF f]
       newEnviron_all_or_nothing [OF g] a b c d e f g h
  show ?thesis by (auto simp: start_def)
qed

subsection \<open>DestroyController\<close>

text \<open>
  C8. For every outcome of the calls that \<open>DestroyController\<close> makes, its result,
  the world it leaves and the calls it has made are given. The calls of \<open>Destroy\<close>
  (ingress rules, closing of ports, generic destroy) come first, then the listing of
  instances and the one batched removal, then, for a local hypervisor with a
  certificate, the removal of the certificate. The first call that fails (a not-found
  removal of the certificate apart) ends the run: its error is returned, wrapped, and no
  later call is made. All calls come in the order of the three steps, and a call of the
  third step is there only for a local hypervisor.
\<close>

theorem DestroyController_order:
  "(IngressRules p env (world s) = (Inl e, w1) \<longrightarrow>
      DestroyController p env c s =
        (Some (Trace (Trace e)), \<lparr>world = w1, trace = trace s @ [EvIngressRules]\<rparr>))
   \<and> (IngressRules p env (world s) = (Inr rules, w1) \<and> rules \<noteq> []
        \<and> ClosePorts p env rules w1 = (Some e, w2) \<longrightarrow>
      DestroyController p env c s =
        (Some (Trace (Trace e)),
         \<lparr>world = w2, trace = trace s @ [EvIngressRules, EvClosePorts rules]\<rparr>))
   \<and> (IngressRules p env (world s) = (Inr rules, w1)
        \<and> (if rules = [] then (None, w1) else ClosePorts p env rules w1) = (None, w2)
        \<and> DestroyEnv (base env) w2 = (Some e, w3) \<longrightarrow>
      DestroyController p env c s =
        (Some (Trace (Trace e)),
         \<lparr>world = w3,
          trace = trace s @ [EvIngressRules]
                    @ (if rules = [] then [] else [EvClosePorts rules]) @ [EvDestroyEnv]\<rparr>))
   \<and> (IngressRules p env (world s) = (Inr rules, w1)
        \<and> (if rules = [] then (None, w1) else ClosePorts p env rules w1) = (None, w2)
        \<and> DestroyEnv (base env) w2 = (None, w3)
        \<and> prefixedInstances p env ''juju-'' w3 = (Inl e, w4) \<longrightarrow>
      DestroyController p env c s =
        (Some (Trace (Annotate e ''listing instances'')),
         \<lparr>world = w4,
          trace = trace s @ [EvIngressRules]
                    @ (if rules = [] then [] else [EvClosePorts rules]) @ [EvDestroyEnv]
                    @ [EvPrefixedInstances ''juju-'']\<rparr>))
   \<and> (IngressRules p env (world s) = (Inr rules, w1)
        \<and> (if rules = [] then (None, w1) else ClosePorts p env rules w1) = (None, w2)
        \<and> DestroyEnv (base env) w2 = (None, w3)
        \<and> prefixedInstances p env ''juju-'' w3 = (Inr instances, w4)
        \<and> filter (hosted (uuid env) c) instances \<noteq> []
        \<and> RemoveInstances (raw env) ''juju-''
             (map Id (filter (hosted (uuid env) c) instances)) w4 = (Some e, w5) \<longrightarrow>
      DestroyController p env c s =
        (Some (Trace (Annotate e ''removing hosted model instances'')),
         \<lparr>world = w5,
          trace = trace s @ [EvIngressRules]
                    @ (if rules = [] then [] else [EvClosePorts rules]) @ [EvDestroyEnv]
                    @ [EvPrefixedInstances ''juju-'',
                       EvRemoveInstances ''juju-''
                         (map Id (filter (hosted (uuid env) c) instances))]\<rparr>))
   \<and> (IngressRules p env (world s) = (Inr rules, w1)
        \<and> (if rules = [] then (None, w1) else ClosePorts p env rules w1) = (None, w2)
        \<and> DestroyEnv (base env) w2 = (None, w3)
        \<and> prefixedInstances p env ''juju-'' w3 = (Inr instances, w4)
        \<and> (if filter (hosted (uuid env) c) instances = [] then (None, w4)
            else RemoveInstances (raw env) ''juju-''
                   (map Id (filter (hosted (uuid env) c) instances)) w4) = (None, w5) \<longrightarrow>
      (\<not> local env \<or> remote_Cert (raw env) = None \<longrightarrow>
         DestroyController p env c s =
           (None,
            \<lparr>world = w5,
             trace = trace s @ [EvIngressRules]
                       @ (if rules = [] then [] else [EvClosePorts rules]) @ [EvDestroyEnv]
                       @ [EvPrefixedInstances ''juju-'']
                       @ (if filter (hosted (uuid env) c) instances = [] then []
                          else [EvRemoveInstances ''juju-''
                                  (map Id (filter (hosted (uuid env) c) instances))])\<rparr>))
      \<and> (local env \<and> remote_Cert (raw env) = Some crt \<and> Fingerprint p crt = Inl e \<longrightarrow>
         DestroyController p env c s =
           (Some (Trace (Annotate e ''generating certificate fingerprint'')),
            \<lparr>world = w5,
             trace = trace s @ [EvIngressRules]
                       @ (if rules = [] then [] else [EvClosePorts rules]) @ [EvDestroyEnv]
                       @ [EvPrefixedInstances ''juju-'']
                       @ (if filter (hosted (uuid env) c) instances = [] then []
                          else [EvRemoveInstances ''juju-''
                                  (map Id (filter (hosted (uuid env) c) instances))])\<rparr>))
      \<and> (local env \<and> remote_Cert (raw env) = Some crt \<and> Fingerprint p crt = Inr fp
          \<and> RemoveCertByFingerprint (raw env) fp w5 = (r, w6) \<longrightarrow>
         DestroyController p env c s =
           ((case r of
               None \<Rightarrow> None
             | Some e' \<Rightarrow> if IsNotFound (Some e') then None
                          else Some (Trace (Annotate e' ''removing certificate''))),
            \<lparr>world = w6,
             trace = trace s @ [EvIngressRules]
                       @ (if rules = [] then [] else [EvClosePorts rules]) @ [EvDestroyEnv]
                       @ [EvPrefixedInstances ''juju-'']
                       @ (if filter (hosted (uuid env) c) instances = [] then []
                          else [EvRemoveInstances ''juju-''
                                  (map Id (filter (hosted (uuid env) c) instances))])
                       @ [EvRemoveCertByFingerprint fp]\<rparr>)))
   \<and> (\<exists>d. trace (snd (DestroyController p env c s)) = trace s @ d \<and> sorted (map stage d)
          \<and> (\<forall>ev \<in> set d. 1 \<le> stage ev \<and> (stage ev = 3 \<longrightarrow> local env)))"
proof -
  let ?D = "[EvIngressRules] @ (if rules = [] then [] else [EvClosePorts rules]) @ [EvDestroyEnv]"
  let ?names = "map Id (filter (hosted (uuid env) c) instances)"
  let ?S = "[EvPrefixedInstances ''juju-'']
              @ (if filter (hosted (uuid env) c) instances = [] then []
                 else [EvRemoveInstances ''juju-'' ?names])"
  have 1: "IngressRules p env (world s) = (Inl e, w1) \<longrightarrow>
      DestroyController p env c s =
        (Some (Trace (Trace e)), \<lparr>world = w1, trace = trace s @ [EvIngressRules]\<rparr>)"
    by (simp add: DestroyController_def Destroy_def call_eq)
  have 2: "IngressRules p env (world s) = (Inr rules, w1) \<and> rules \<noteq> []
        \<and> ClosePorts p env rules w1 = (Some e, w2) \<longrightarrow>
      DestroyController p env c s =
        (Some (Trace (Trace e)),
         \<lparr>world = w2, trace = trace s @ [EvIngressRules, EvClosePorts rules]\<rparr>)"
    by (simp add: DestroyController_def Destroy_def call_eq)
  have 3: "DestroyController p env c s =
        (Some (Trace (Trace e)), \<lparr>world = w3, trace = trace s @ ?D\<rparr>)"
    if "IngressRules p env (world s) = (Inr rules, w1)"
      and "(if rules = [] then (None, w1) else ClosePorts p env rules w1) = (None, w2)"
      and "DestroyEnv (base env) w2 = (Some e, w3)"
    using Destroy_run [OF that] by (simp add: DestroyController_def)
  have D: "Destroy p env s = (None, \<lparr>world = w3, trace = trace s @ ?D\<rparr>)"
    if "IngressRules p env (world s) = (Inr rules, w1)"
      and "(if rules = [] then (None, w1) else ClosePorts p env rules w1) = (None, w2)"
      and "DestroyEnv (base env) w2 = (None, w3)"
    using Destroy_run [OF that] by simp
  have 4: "DestroyController p env c s =
        (Some (Trace (Annotate e ''listing instances'')),
         \<lparr>world = w4, trace = trace s @ ?D @ [EvPrefixedInstances ''juju-'']\<rparr>)"
    if "IngressRules p env (world s) = (Inr rules, w1)"
      and "(if rules = [] then (None, w1) else ClosePorts p env rules w1) = (None, w2)"
      and "DestroyEnv (base env) w2 = (None, w3)"
      and "prefixedInstances p env ''juju-'' w3 = (Inl e, w4)"
    using D [OF that(1,2,3)] that(4)
    by (simp add: DestroyController_def destroyHostedModelResources_def prefix_def call_eq)
  have S: "destroyHostedModelResources p env c \<lparr>world = w3, trace = trace s @ ?D\<rparr> =
           (map_option (\<lambda>e. Annotate e ''removing hosted model instances'') r',
            \<lparr>world = w5, trace = (trace s @ ?D) @ ?S\<rparr>)"
    if "prefixedInstances p env ''juju-'' w3 = (Inr instances, w4)"
      and "(if filter (hosted (uuid env) c) instances = [] then (None, w4)
            else RemoveInstances (raw env) ''juju-'' ?names w4) = (r', w5)" for r'
    using sweep_run [where s = "\<lparr>world = w3, trace = trace s @ ?D\<rparr>", OF _ that(2)] that(1)
    by simp
  have 5: "DestroyController p env c s =
        (Some (Trace (Annotate e ''removing hosted model instances'')),
         \<lparr>world = w5,
          trace = trace s @ ?D @ [EvPrefixedInstances ''juju-'', EvRemoveInstances ''juju-'' ?names]\<rparr>)"
    if "IngressRules p env (world s) = (Inr rules, w1)"
      and "(if rules = [] then (None, w1) else ClosePorts p env rules w1) = (None, w2)"
      and "DestroyEnv (base env) w2 = (None, w3)"
      and "prefixedInstances p env ''juju-'' w3 = (Inr instances, w4)"
      and "filter (hosted (uuid env) c) instances \<noteq> []"
      and "RemoveInstances (raw env) ''juju-'' ?names w4 = (Some e, w5)"
    using D [OF that(1,2,3)] S [of "Some e", OF that(4)] that(5,6)
    by (simp add: DestroyController_def)
  have 6: "(\<not> local env \<or> remote_Cert (raw env) = None \<longrightarrow>
         DestroyController p env c s = (None, \<lparr>world = w5, trace = trace s @ ?D @ ?S\<rparr>))
      \<and> (local env \<and> remote_Cert (raw env) = Some crt \<and> Fingerprint p crt = Inl e \<longrightarrow>
         DestroyController p env c s =
           (Some (Trace (Annotate e ''generating certificate fingerprint'')),
            \<lparr>world = w5, trace = trace s @ ?D @ ?S\<rparr>))
      \<and> (local env \<and> remote_Cert (raw env) = Some crt \<and> Fingerprint p crt = Inr fp
          \<and> RemoveCertByFingerprint (raw env) fp w5 = (r, w6) \<longrightarrow>
         DestroyController p env c s =
           ((case r of
               None \<Rightarrow> None
             | Some e' \<Rightarrow> if IsNotFound (Some e') then None
                          else Some (Trace (Annotate e' ''removing certificate''))),
            \<lparr>world = w6, trace = trace s @ ?D @ ?S @ [EvRemoveCertByFingerprint fp]\<rparr>))"
    if "IngressRules p env (world s) = (Inr rules, w1)"
      and "(if rules = [] then (None, w1) else ClosePorts p env rules w1) = (None, w2)"
      and "DestroyEnv (base env) w2 = (None, w3)"
      and "prefixedInstances p env ''juju-'' w3 = (Inr instances, w4)"
      and "(if filter (hosted (uuid env) c) instances = [] then (None, w4)
            else RemoveInstances (raw env) ''juju-'' ?names w4) = (None, w5)"
    using D [OF that(1,2,3)] S [of None, OF that(4,5)]
    by (auto simp: DestroyController_def removeCertificate_def call_eq split: option.split)
  from 1 2 3 4 5 6 DestroyController_trace [of p env c s] show ?thesis
    by (simp only: append_Cons append_Nil append_assoc) blast
qed

theorem DestroyController_order_witness:
  "local (env0 True) \<and> \<not> local (env0 False)
   \<and> DestroyController hv_pkg (env0 True) ''ctrl-1'' (start hv0) =
       (None, \<lparr>world = hv0\<lparr>hv_instances := [inst0, inst2]\<rparr>,
               trace = [EvIngressRules, EvDestroyEnv, EvPrefixedInstances ''juju-'',
                        EvRemoveInstances ''juju-'' [''juju-1''],
                        EvRemoveCertByFingerprint ''sha256:CERT'']\<rparr>)
   \<and> DestroyController hv_pkg (env0 False) ''ctrl-1'' (start hv0) =
       (None, \<lparr>world = hv0\<lparr>hv_instances := [inst0, inst2]\<rparr>,
               trace = [EvIngressRules, EvDestroyEnv, EvPrefixedInstances ''juju-'',
                        EvRemoveInstances ''juju-'' [''juju-1'']]\<rparr>)
   \<and> IngressRules hv_pkg (env0 True) (world (start hv_down))
       = (Inl (Err Generic ''connection refused''), hv_down)
   \<and> DestroyController hv_pkg (env0 True) ''ctrl-1'' (start hv_down) =
       (Some (Trace (Trace (Err Generic ''connection refused''))),
        \<lparr>world = hv_down, trace = [EvIngressRules]\<rparr>)
   \<and> prefixedInstances hv_pkg (env0 True) ''juju-'' hv_no_listing
       = (Inl (Err Generic ''connection reset''), hv_no_listing)
   \<and> DestroyController hv_pkg (env0 True) ''ctrl-1'' (start hv_no_listing) =
       (Some (Trace (Annotate (Err Generic ''connection reset'') ''listing instances'')),
        \<lparr>world = hv_no_listing,
         trace = [EvIngressRules, EvDestroyEnv, EvPrefixedInstances ''juju-'']\<rparr>)
   \<and> RemoveInstances (raw (env0 True)) ''juju-'' [''juju-1''] hv_no_removal
       = (Some (Err Generic ''instance busy''), hv_no_removal)
   \<and> DestroyController hv_pkg (env0 True) ''ctrl-1'' (start hv_no_removal) =
       (Some (Trace (Annotate (Err Generic ''instance busy'')
                       ''removing hosted model instances'')),
        \<lparr>world = hv_no_removal,
         trace = [EvIngressRules, EvDestroyEnv, EvPrefixedInstances ''juju-'',
                  EvRemoveInstances ''juju-'' [''juju-1'']]\<rparr>)"
proof -
  let ?h = "hv0\<lparr>hv_instances := [inst0, inst2]\<rparr>"
  let ?insts = "[inst0, inst1, inst2]"
  have l: "local (env0 True)" "\<not> local (env0 False)" by (simp_all add: env0_def)
  have u: "uuid (env0 loc) = ''abc-123''" for loc by (simp add: env0_def)
  have hosted: "filter (hosted ''abc-123'' ''ctrl-1'') ?insts = [inst1]"
    by (simp add: hosted_def index_def inst0_def inst1_def inst2_def JujuModel_def
          JujuController_def)
  have i: "Id inst1 = ''juju-1''" by (simp add: inst1_def)
  have ir: "IngressRules hv_pkg (env0 loc) (world (start hv0)) = (Inr [], hv0)" for loc
    by (simp add: hv_defs hv0_def)
  have de: "DestroyEnv (base (env0 loc)) hv0 = (None, hv0)" for loc
    by (simp add: hv_defs hv0_def)
  have pi: "prefixedInstances hv_pkg (env0 loc) ''juju-'' hv0 = (Inr ?insts, hv0)" for loc
    by (simp add: hv_defs hv0_def inst0_def inst1_def inst2_def)
  have ri: "RemoveInstances (raw (env0 loc)) ''juju-'' [''juju-1''] hv0 = (None, ?h)" for loc
    by (simp add: hv_defs hv0_def inst0_def inst1_def inst2_def)
  have rc: "remote_Cert (raw (env0 True)) = Some cert0" by (simp add: hv_defs)
  have fp: "Fingerprint hv_pkg cert0 = Inr ''sha256:CERT''" by (simp add: hv_defs)
  have rm: "RemoveCertByFingerprint (raw (env0 True)) ''sha256:CERT'' ?h
              = (Some (Err NotFound ''certificate not found''), ?h)"
    by (simp add: hv_defs hv0_def)
  have ird: "IngressRules hv_pkg (env0 True) (world (start hv_down))
       = (Inl (Err Generic ''connection refused''), hv_down)"
    by (simp add: hv_defs hv_down_def)
  have irn: "IngressRules hv_pkg (env0 True) (world (start hv_no_listing))
               = (Inr [], hv_no_listing)"
    by (simp add: hv_defs hv_no_listing_def hv0_def)
  have den: "DestroyEnv (base (env0 True)) hv_no_listing = (None, hv_no_listing)"
    by (simp add: hv_defs hv_no_listing_def)
  have pin: "prefixedInstances hv_pkg (env0 True) ''juju-'' hv_no_listing
       = (Inl (Err Generic ''connection reset''), hv_no_listing)"
    by (simp add: hv_defs hv_no_listing_def)
  have irr: "IngressRules hv_pkg (env0 True) (world (start hv_no_removal))
               = (Inr [], hv_no_removal)"
    by (simp add: hv_defs hv_no_removal_def hv0_def)
  have der: "DestroyEnv (base (env0 True)) hv_no_removal = (None, hv_no_removal)"
    by (simp add: hv_defs hv_no_removal_def)
  have pir: "prefixedInstances hv_pkg (env0 True) ''juju-'' hv_no_removal
               = (Inr ?insts, hv_no_removal)"
    by (simp add: hv_defs hv_no_removal_def hv0_def inst0_def inst1_def inst2_def)
  have rir: "RemoveInstances (raw (env0 True)) ''juju-'' [''juju-1''] hv_no_removal
       = (Some (Err Generic ''instance busy''), hv_no_removal)"
    by (simp add: hv_defs hv_no_removal_def)
  have A: "DestroyController hv_pkg (env0 True) ''ctrl-1'' (start hv0) =
       (None, \<lparr>world = ?h,
               trace = [EvIngressRules, EvDestroyEnv, EvPrefixedInstances ''juju-'',
                        EvRemoveInstances ''juju-'' [''juju-1''],
                        EvRemoveCertByFingerprint ''sha256:CERT'']\<rparr>)"
    using DestroyController_order [where p = hv_pkg and env = "env0 True" and s = "start hv0"
         and c = "''ctrl-1''" and rules = "[]" and ?w1.0 = hv0 and ?w2.0 = hv0 and ?w3.0 = hv0
         and instances = ?insts and ?w4.0 = hv0 and ?w5.0 = ?h and crt = cert0
         and fp = "''sha256:CERT''" and r = "Some (Err NotFound ''certificate not found'')"
         and ?w6.0 = ?h]
      l u hosted i ir de pi ri rc fp rm
    by (simp add: start_def)
  have B: "DestroyController hv_pkg (env0 False) ''ctrl-1'' (start hv0) =
       (None, \<lparr>world = ?h,
               trace = [EvIngressRules, EvDestroyEnv, EvPrefixedInstances ''juju-'',
                        EvRemoveInstances ''juju-'' [''juju-1'']]\<rparr>)"
    using DestroyController_order [where p = hv_pkg and env = "env0 False" and s = "start hv0"
         and c = "''ctrl-1''" and rules = "[]" and ?w1.0 = hv0 and ?w2.0 = hv0 and ?w3.0 = hv0
         and instances = ?insts and ?w4.0 = hv0 and ?w5.0 = ?h]
      l u hosted i ir de pi ri
    by (simp add: start_def)
  have C: "DestroyController hv_pkg (env0 True) ''ctrl-1'' (start hv_down) =
       (Some (Trace (Trace (Err Generic ''connection refused''))),
        \<lparr>world = hv_down, trace = [EvIngressRules]\<rparr>)"
    using DestroyController_order [where p = hv_pkg and env = "env0 True" and s = "start hv_down"
         and c = "''ctrl-1''" and e = "Err Generic ''connection refused''" and ?w1.0 = hv_down]
      ird
    by (simp add: start_def)
  have D: "DestroyController hv_pkg (env0 True) ''ctrl-1'' (start hv_no_listing) =
       (Some (Trace (Annotate (Err Generic ''connection reset'') ''listing instances'')),
        \<lparr>world = hv_no_listing,
         trace = [EvIngressRules, EvDestroyEnv, EvPrefixedInstances ''juju-'']\<rparr>)"
    using DestroyController_order [where p = hv_pkg and env = "env0 True"
         and s = "start hv_no_listing" and c = "''ctrl-1''" and rules = "[]"
         and ?w1.0 = hv_no_listing and ?w2.0 = hv_no_listing and ?w3.0 = hv_no_listing
         and e = "Err Generic ''connection reset''" and ?w4.0 = hv_no_listing]
      irn den pin
    by (simp add: start_def)
  have E: "DestroyController hv_pkg (env0 True) ''ctrl-1'' (start hv_no_removal) =
       (Some (Trace (Annotate (Err Generic ''instance busy'')
                       ''removing hosted model instances'')),
        \<lparr>world = hv_no_removal,
         trace = [EvIngressRules, EvDestroyEnv, EvPrefixedInstances ''juju-'',
                  EvRemoveInstances ''juju-'' [''juju-1'']]\<rparr>)"
    using DestroyController_order [where p = hv_pkg and env = "env0 True"
         and s = "start hv_no_removal" and c = "''ctrl-1''" and rules = "[]"
         and ?w1.0 = hv_no_removal and ?w2.0 = hv_no_removal and ?w3.0 = hv_no_removal
         and instances = ?insts and ?w4.0 = hv_no_removal
         and e = "Err Generic ''instance busy''" and ?w5.0 = hv_no_removal]
      u hosted i irr der pir rir
    by (simp add: start_def)
  from A B C D E l ird pin rir show ?thesis by simp
qed

subsection \<open>Removal of the certificate\<close>

text \<open>
  C9. With a certificate on the remote and a fingerprint for it, \<open>removeCertificate\<close>
  calls the removal by fingerprint once; it returns no error when the call succeeds or
  reports not-found, and the error, annotated, for any other failure.
\<close>

theorem removeCertificate_absent_ok:
  assumes "remote_Cert (raw env) = Some c" and "Fingerprint p c = Inr fp"
    and "RemoveCertByFingerprint (raw env) fp (world s) = (r, w1)"
  shows "removeCertificate p env s =
           ((case r of
               None \<Rightarrow> None
             | Some e \<Rightarrow> if IsNotFound (Some e) then None
                         else Some (Annotate e ''removing certificate'')),
            \<lparr>world = w1, trace = trace s @ [EvRemoveCertByFingerprint fp]\<rparr>)"
  using assms by (simp add: removeCertificate_def call_eq split: option.split)

theorem removeCertificate_absent_ok_witness:
  "remote_Cert (raw (env0 True)) = Some cert0
   \<and> Fingerprint hv_pkg cert0 = Inr ''sha256:CERT''
   \<and> RemoveCertByFingerprint (raw (env0 True)) ''sha256:CERT'' (world (start hv0))
       = (Some (Err NotFound ''certificate not found''), hv0)
   \<and> removeCertificate hv_pkg (env0 True) (start hv0)
       = (None, \<lparr>world = hv0, trace = [EvRemoveCertByFingerprint ''sha256:CERT'']\<rparr>)
   \<and> RemoveCertByFingerprint (raw (env0 True)) ''sha256:CERT'' (world (start hv_down))
       = (Some (Err Generic ''connection refused''), hv_down)
   \<and> removeCertificate hv_pkg (env0 True) (start hv_down)
       = (Some (Annotate (Err Generic ''connection refused'') ''removing certificate''),
          \<lparr>world = hv_down, trace = [EvRemoveCertByFingerprint ''sha256:CERT'']\<rparr>)
   \<and> RemoveCertByFingerprint (raw (env0 True)) ''sha256:CERT'' (world (start hv_trusted))
       = (None, hv0)
   \<and> removeCertificate hv_pkg (env0 True) (start hv_trusted)
       = (None, \<lparr>world = hv0, trace = [EvRemoveCertByFingerprint ''sha256:CERT'']\<rparr>)"
proof -
  have a: "remote_Cert (raw (env0 True)) = Some cert0" by (simp add: env0_def hv_raw_def)
  have b: "Fingerprint hv_pkg cert0 = Inr ''sha256:CERT''"
    by (simp add: hv_pkg_def hv_Fingerprint_def cert0_def)
  have c: "RemoveCertByFingerprint (raw (env0 True)) ''sha256:CERT'' (world (start hv0))
       = (Some (Err NotFound ''certificate not found''), hv0)"
    by (simp add: env0_def hv_raw_def hv_RemoveCertByFingerprint_def start_def hv0_def no_faults_def)
  have d: "RemoveCertByFingerprint (raw (env0 True)) ''sha256:CERT'' (world (start hv_down))
       = (Some (Err Generic ''connection refused''), hv_down)"
    by (simp add: env0_def hv_raw_def hv_RemoveCertByFingerprint_def start_def hv_down_def)
  have e: "RemoveCertByFingerprint (raw (env0 True)) ''sha256:CERT'' (world (start hv_trusted))
       = (None, hv0)"
    by (simp add: env0_def hv_raw_def hv_RemoveCertByFingerprint_def start_def hv_trusted_def
          hv0_def no_faults_def)
  from removeCertificate_absent_ok [OF a b c] removeCertificate_absent_ok [OF a b d]
       removeCertificate_absent_ok [OF a b e] a b c d e
  show ?thesis by (simp add: start_def)
qed

subsection \<open>Configuration\<close>

text \<open>
  C10. When validation rejects the configuration, \<open>SetConfig\<close> returns the error and
  leaves the environment as it was, so that \<open>Config\<close> returns the same snapshot as
  before; when validation accepts it, the snapshot is the validated configuration.
\<close>

theorem SetConfig_atomic:
  "(newValidConfig p cfg = Inl e \<longrightarrow>
      SetConfig p env cfg = (Some (Trace e), env) \<and> Config_of (snd (SetConfig p env cfg)) = Config_of env)
   \<and> (newValidConfig p cfg = Inr ec \<longrightarrow>
      SetConfig p env cfg = (None, env\<lparr>ecfg := ec\<rparr>) \<and> Config_of (snd (SetConfig p env cfg)) = Config ec)"
  by (simp add: SetConfig_def Config_of_def)

theorem SetConfig_atomic_witness:
  "newValidConfig hv_pkg (cfg0\<lparr>Name := []\<rparr>) = Inl (Err Generic ''empty name'')
   \<and> fst (SetConfig hv_pkg (env0 True) (cfg0\<lparr>Name := []\<rparr>)) = Some (Trace (Err Generic ''empty name''))
   \<and> Config_of (snd (SetConfig hv_pkg (env0 True) (cfg0\<lparr>Name := []\<rparr>))) = cfg0
   \<and> newValidConfig hv_pkg (cfg0\<lparr>Name := ''other''\<rparr>) = Inr \<lparr>Config = cfg0\<lparr>Name := ''other''\<rparr>, attrs = []\<rparr>
   \<and> Config_of (snd (SetConfig hv_pkg (env0 True) (cfg0\<lparr>Name := ''other''\<rparr>))) = cfg0\<lparr>Name := ''other''\<rparr>"
proof -
  have a: "newValidConfig hv_pkg (cfg0\<lparr>Name := []\<rparr>) = Inl (Err Generic ''empty name'')"
    by (simp add: hv_pkg_def hv_newValidConfig_def)
  have b: "newValidConfig hv_pkg (cfg0\<lparr>Name := ''other''\<rparr>) = Inr \<lparr>Config = cfg0\<lparr>Name := ''other''\<rparr>, attrs = []\<rparr>"
    by (simp add: hv_pkg_def hv_newValidConfig_def cfg0_def)
  have c: "Config_of (env0 True) = cfg0" by (simp add: Config_of_def env0_def)
  from SetConfig_atomic [of hv_pkg "cfg0\<lparr>Name := []\<rparr>" "Err Generic ''empty name''" "env0 True"
         "\<lparr>Config = cfg0\<lparr>Name := ''other''\<rparr>, attrs = []\<rparr>"] a
       SetConfig_atomic [of hv_pkg "cfg0\<lparr>Name := ''other''\<rparr>" "Err Generic ''empty name''" "env0 True"
         "\<lparr>Config = cfg0\<lparr>Name := ''other''\<rparr>, attrs = []\<rparr>"] b c
  show ?thesis by (simp add: Config_of_def)
qed

end
